theory Spec2Isabelle
  imports Main "HOL-Library.Sublist" "HOL-Library.Char_ord" "HOL-Library.List_Lexorder"
begin

section \<open>Python values used by the pipeline\<close>

text \<open>
  The four scripts of the repository form a pipeline over one tabular dataset:
  \<^verbatim>\<open>01-fetch_repos.py\<close> (discovery), \<^verbatim>\<open>02-parse_repos.py\<close> (name decomposition),
  \<^verbatim>\<open>03-download_sketches.py\<close> (asset retrieval) and \<^verbatim>\<open>04-generate_quarto_pages.py\<close>
  (page generation). Strings are ASCII text, as GitHub repository names are.
  Every exception a script can raise is a value of \<open>py_error\<close>; a function that can raise
  returns \<open>py_error + 'a\<close>, with \<open>Inl\<close> for the exception.
\<close>

datatype py_error =
  IndexError | KeyError | ValueError | TypeError | OverflowError | ApiError

text \<open>List indexing \<^verbatim>\<open>xs[i]\<close> for a non-negative index: out of range raises.\<close>

definition index :: "'a list \<Rightarrow> nat \<Rightarrow> py_error + 'a" where
  "index xs i = (if i < length xs then Inr (xs ! i) else Inl IndexError)"

text \<open>
  \<^verbatim>\<open>s.split(sep, 1)\<close> for a one-character separator: the string is cut at the first
  occurrence of the separator, which is dropped; a string without the separator is
  returned whole, as the only part.
\<close>

fun find_sep :: "char \<Rightarrow> string \<Rightarrow> (string \<times> string) option" where
  "find_sep sep [] = None"
| "find_sep sep (c # cs) =
     (if c = sep then Some ([], cs)
      else (case find_sep sep cs of
              None \<Rightarrow> None
            | Some (before, after) \<Rightarrow> Some (c # before, after)))"

definition split_maxsplit1 :: "string \<Rightarrow> char \<Rightarrow> string list" where
  "split_maxsplit1 s sep =
     (case find_sep sep s of None \<Rightarrow> [s] | Some (before, after) \<Rightarrow> [before, after])"

subsection \<open>Floats and the conversion \<^verbatim>\<open>int(float(x))\<close>\<close>

text \<open>
  A Python float is an IEEE binary64 value: \<open>Finite m e\<close> stands for \<open>m * 2 ^ e\<close>, and
  there are the two infinities and NaN. \<^verbatim>\<open>float(s)\<close> on a string removes underscores
  written between digits, strips white space, reads an optional sign and then either
  one of the words \<^verbatim>\<open>inf\<close>, \<^verbatim>\<open>infinity\<close>, \<^verbatim>\<open>nan\<close> (in any case) or a decimal
  literal with optional fraction and exponent; anything else raises \<^verbatim>\<open>ValueError\<close>.
  The decimal value is rounded to the nearest binary64 value, ties to even, and to an
  infinity beyond the largest finite one.
\<close>

datatype pyfloat = Finite int int | PosInf | NegInf | NaN

definition is_digit :: "char \<Rightarrow> bool" where
  "is_digit c = (c \<in> set ''0123456789'')"

definition is_cspace :: "char \<Rightarrow> bool" where
  "is_cspace c = (c \<in> {CHR 0x09, CHR 0x0A, CHR 0x0B, CHR 0x0C, CHR 0x0D, CHR 0x20})"

definition digit_value :: "char \<Rightarrow> int" where
  "digit_value c = of_char c - 48"

definition digits_value :: "string \<Rightarrow> int" where
  "digits_value ds = foldl (\<lambda>acc c. 10 * acc + digit_value c) 0 ds"

fun remove_underscores :: "char \<Rightarrow> string \<Rightarrow> string option" where
  "remove_underscores prev [] = (if prev = CHR ''_'' then None else Some [])"
| "remove_underscores prev (c # cs) =
     (if c = CHR ''_'' then
        (if is_digit prev then remove_underscores c cs else None)
      else if prev = CHR ''_'' \<and> \<not> is_digit c then None
      else map_option ((#) c) (remove_underscores c cs))"

definition strip_cspace :: "string \<Rightarrow> string" where
  "strip_cspace s = rev (dropWhile is_cspace (rev (dropWhile is_cspace s)))"

definition lower :: "char \<Rightarrow> char" where
  "lower c =
     (let n = (of_char c :: nat) in if 65 \<le> n \<and> n \<le> 90 then char_of (n + 32) else c)"

function bit_length :: "int \<Rightarrow> int" where
  "bit_length n = (if n \<le> 0 then 0 else 1 + bit_length (n div 2))"
  by pat_completeness auto
termination
  by (relation "measure nat") auto

declare bit_length.simps [simp del]

definition round_half_even :: "int \<Rightarrow> int \<Rightarrow> int" where
  "round_half_even n d =
     (let q = n div d; r = n mod d
      in if 2 * r < d then q
         else if d < 2 * r then q + 1
         else if even q then q else q + 1)"

text \<open>The integer \<open>k\<close> with \<open>2 ^ k \<le> n / d < 2 ^ (k + 1)\<close>, for positive \<open>n\<close> and \<open>d\<close>.\<close>

definition floor_log2 :: "int \<Rightarrow> int \<Rightarrow> int" where
  "floor_log2 n d =
     (let k = bit_length n - bit_length d
      in if (if 0 \<le> k then d * 2 ^ nat k \<le> n else d \<le> n * 2 ^ nat (- k))
         then k else k - 1)"

text \<open>
  The binary64 value nearest to \<open>n / d\<close> (with \<open>0 \<le> n\<close>, \<open>0 < d\<close>), negated when asked:
  53 significant bits, exponents from \<open>- 1022\<close> (below that the spacing stays that of the
  subnormals), overflow from \<open>2 ^ 1024\<close>.
\<close>

definition round_binary64 :: "bool \<Rightarrow> int \<Rightarrow> int \<Rightarrow> pyfloat" where
  "round_binary64 negative n d =
     (if n = 0 then Finite 0 0
      else
        let e = max (floor_log2 n d) (- 1022) - 52;
            m = (if 0 \<le> e then round_half_even n (d * 2 ^ nat e)
                 else round_half_even (n * 2 ^ nat (- e)) d)
        in if 0 \<le> e \<and> 2 ^ 1024 \<le> m * 2 ^ nat e
           then (if negative then NegInf else PosInf)
           else Finite (if negative then - m else m) e)"

definition parse_exponent :: "string \<Rightarrow> int option" where
  "parse_exponent s =
     (let (negative, ds) =
        (case s of
           c # cs \<Rightarrow>
             if c = CHR ''+'' then (False, cs)
             else if c = CHR ''-'' then (True, cs) else (False, s)
         | [] \<Rightarrow> (False, s))
      in if ds \<noteq> [] \<and> list_all is_digit ds
         then Some (if negative then - digits_value ds else digits_value ds)
         else None)"

text \<open>A decimal literal as mantissa and decimal exponent: \<open>(m, ex)\<close> stands for \<open>m * 10 ^ ex\<close>.\<close>

definition parse_decimal :: "string \<Rightarrow> (int \<times> int) option" where
  "parse_decimal s =
     (let ip = takeWhile is_digit s;
          r1 = dropWhile is_digit s;
          (fp, r2) =
            (case r1 of
               c # cs \<Rightarrow>
                 if c = CHR ''.'' then (takeWhile is_digit cs, dropWhile is_digit cs)
                 else ([], r1)
             | [] \<Rightarrow> ([], r1))
      in if ip = [] \<and> fp = [] then None
         else (case r2 of
                 [] \<Rightarrow> Some (digits_value (ip @ fp), - int (length fp))
               | c # cs \<Rightarrow>
                   if c = CHR ''e'' \<or> c = CHR ''E'' then
                     (case parse_exponent cs of
                        None \<Rightarrow> None
                      | Some ex \<Rightarrow> Some (digits_value (ip @ fp), ex - int (length fp)))
                   else None))"

definition float_of_string :: "string \<Rightarrow> py_error + pyfloat" where
  "float_of_string s =
     (case (if CHR ''_'' \<in> set s then remove_underscores (CHR 0x00) s else Some s) of
        None \<Rightarrow> Inl ValueError
      | Some t \<Rightarrow>
          let u = strip_cspace t;
              (negative, body) =
                (case u of
                   c # cs \<Rightarrow>
                     if c = CHR ''-'' then (True, cs)
                     else if c = CHR ''+'' then (False, cs) else (False, u)
                 | [] \<Rightarrow> (False, u));
              word = map lower body
          in if word = ''inf'' \<or> word = ''infinity''
             then Inr (if negative then NegInf else PosInf)
             else if word = ''nan'' then Inr NaN
             else (case parse_decimal body of
                     None \<Rightarrow> Inl ValueError
                   | Some (m, ex) \<Rightarrow>
                       Inr (if 0 \<le> ex then round_binary64 negative (m * 10 ^ nat ex) 1
                            else round_binary64 negative m (10 ^ nat (- ex)))))"

text \<open>
  \<^verbatim>\<open>float(n)\<close> on an integer rounds in the same way and raises \<^verbatim>\<open>OverflowError\<close>
  instead of giving an infinity.
\<close>

definition float_of_int :: "int \<Rightarrow> py_error + pyfloat" where
  "float_of_int n =
     (case round_binary64 (n < 0) \<bar>n\<bar> 1 of
        PosInf \<Rightarrow> Inl OverflowError
      | NegInf \<Rightarrow> Inl OverflowError
      | f \<Rightarrow> Inr f)"

text \<open>\<^verbatim>\<open>int(f)\<close> truncates towards zero; it raises on the infinities and on NaN.\<close>

definition int_of_float :: "pyfloat \<Rightarrow> py_error + int" where
  "int_of_float f =
     (case f of
        Finite m e \<Rightarrow>
          Inr (if 0 \<le> e then m * 2 ^ nat e
               else if 0 \<le> m then m div 2 ^ nat (- e) else - ((- m) div 2 ^ nat (- e)))
      | PosInf \<Rightarrow> Inl OverflowError
      | NegInf \<Rightarrow> Inl OverflowError
      | NaN \<Rightarrow> Inl ValueError)"

text \<open>\<^verbatim>\<open>str(n)\<close> for an integer: its decimal digits, with a minus sign when negative.\<close>

function decimal_digits :: "int \<Rightarrow> string" where
  "decimal_digits n =
     (if n < 10 then [''0123456789'' ! nat n]
      else decimal_digits (n div 10) @ [''0123456789'' ! nat (n mod 10)])"
  by pat_completeness auto
termination
  by (relation "measure nat") auto

declare decimal_digits.simps [simp del]

definition str_of_int :: "int \<Rightarrow> string" where
  "str_of_int n =
     (if n < 0 then CHR ''-'' # decimal_digits (- n) else decimal_digits n)"

subsection \<open>The dataset\<close>

text \<open>
  Every stage after discovery reads the dataset with \<^verbatim>\<open>pandas.read_csv\<close>, which does not
  hand back the text of a field as it stands: an empty field is read as the missing value
  NaN (a float), and a column whose fields all look like integers is read as integers.
  A value of the \<^verbatim>\<open>group_number\<close> column is therefore a \<open>cell\<close>: a string, an integer,
  or the float NaN. (A column of integers with an empty field is read as floats; an
  integral float behaves as the integer under every operation the scripts apply to a
  group number, so \<open>IntV\<close> stands for it too. Columns of booleans and of non-integral or
  infinite floats are not modelled.) The text columns hold a string or the missing value;
  a text column whose fields all look like numbers or booleans, which would be read as
  such, is not modelled. A column that a stage adds (\<^verbatim>\<open>group_number\<close>,
  \<^verbatim>\<open>project_name\<close>, \<^verbatim>\<open>sketch_path\<close>) is \<open>None\<close> in a dataset that does not have it
  yet.
\<close>

datatype cell = Str string | IntV int | FloatNaN

datatype text_cell = Text string | Missing

record row =
  name :: string
  full_name :: string
  html_url :: text_cell
  description :: text_cell
  created_at :: text_cell
  updated_at :: text_cell
  private_repo :: bool
  group_number :: "cell option"
  project_name :: "text_cell option"
  sketch_path :: "text_cell option"

text \<open>\<^verbatim>\<open>pd.isna(x)\<close> and \<^verbatim>\<open>pd.notna(x)\<close> on a scalar.\<close>

definition isna :: "cell \<Rightarrow> bool" where
  "isna c = (c = FloatNaN)"

definition notna :: "text_cell \<Rightarrow> bool" where
  "notna c = (c \<noteq> Missing)"

text \<open>
  Python's truth value, as \<^verbatim>\<open>not x\<close> and \<^verbatim>\<open>if x\<close> use it: a string is true when it is
  not empty, a number when it is not zero. NaN is not zero, so it is true.
\<close>

definition truthy :: "cell \<Rightarrow> bool" where
  "truthy c = (case c of Str s \<Rightarrow> s \<noteq> [] | IntV n \<Rightarrow> n \<noteq> 0 | FloatNaN \<Rightarrow> True)"

definition truthy_text :: "text_cell \<Rightarrow> bool" where
  "truthy_text c = (case c of Text s \<Rightarrow> s \<noteq> [] | Missing \<Rightarrow> True)"

text \<open>
  A value placed in an f-string or given to \<^verbatim>\<open>str\<close>: a string as it is, an integer in
  decimal, NaN as \<^verbatim>\<open>nan\<close>.
\<close>

definition format_text :: "text_cell \<Rightarrow> string" where
  "format_text c = (case c of Text s \<Rightarrow> s | Missing \<Rightarrow> ''nan'')"

definition str_of_cell :: "cell \<Rightarrow> string" where
  "str_of_cell c = (case c of Str s \<Rightarrow> s | IntV n \<Rightarrow> str_of_int n | FloatNaN \<Rightarrow> ''nan'')"

text \<open>\<^verbatim>\<open>int(float(x))\<close> on a cell.\<close>

definition int_float :: "cell \<Rightarrow> py_error + int" where
  "int_float c =
     (case (case c of
              Str s \<Rightarrow> float_of_string s
            | IntV n \<Rightarrow> float_of_int n
            | FloatNaN \<Rightarrow> Inr NaN) of
        Inl e \<Rightarrow> Inl e
      | Inr f \<Rightarrow> int_of_float f)"

text \<open>
  \<^verbatim>\<open>s.strip()\<close>: the white space of a Python string, in the ASCII range, is tab, line
  feed, vertical tab, form feed, carriage return, the four separators \<^verbatim>\<open>0x1c\<close> to
  \<^verbatim>\<open>0x1f\<close>, and the space.
\<close>

definition is_space :: "char \<Rightarrow> bool" where
  "is_space c =
     (c \<in> {CHR 0x09, CHR 0x0A, CHR 0x0B, CHR 0x0C, CHR 0x0D,
            CHR 0x1C, CHR 0x1D, CHR 0x1E, CHR 0x1F, CHR 0x20})"

definition strip :: "string \<Rightarrow> string" where
  "strip s = rev (dropWhile is_space (rev (dropWhile is_space s)))"

text \<open>\<^verbatim>\<open>sep.join(parts)\<close>.\<close>

fun join :: "string \<Rightarrow> string list \<Rightarrow> string" where
  "join sep [] = []"
| "join sep [x] = x"
| "join sep (x # y # ys) = x @ sep @ join sep (y # ys)"

section \<open>Name decomposition (02-parse\_repos.py)\<close>

text \<open>
  \<^verbatim>\<open>parse_repo_name(repo_name, pattern)\<close>: \<^verbatim>\<open>startswith\<close> is \<^const>\<open>prefix\<close>, the slice
  \<^verbatim>\<open>repo_name[len(pattern):]\<close> is \<^const>\<open>drop\<close>.
\<close>

definition parse_repo_name :: "string \<Rightarrow> string \<Rightarrow> py_error + (string \<times> string)" where
  "parse_repo_name repo_name pattern =
     (if \<not> prefix pattern repo_name then Inr ('''', '''')
      else
        let remainder = drop (length pattern) repo_name;
            parts = split_maxsplit1 remainder (CHR ''_'')
        in if length parts < 2 then
             (case index parts 0 of Inl e \<Rightarrow> Inl e | Inr p0 \<Rightarrow> Inr (p0, ''''))
           else
             (case index parts 0 of
                Inl e \<Rightarrow> Inl e
              | Inr g \<Rightarrow>
                  (case index parts 1 of
                     Inl e \<Rightarrow> Inl e
                   | Inr p \<Rightarrow> Inr (g, p))))"

definition default_pattern :: string where
  "default_pattern = ''DSCI-532_2026_''"

text \<open>
  \<^verbatim>\<open>parse_repos_csv\<close>: every name of the \<^verbatim>\<open>name\<close> column is decomposed (with the default
  pattern) and the two results are stored in the columns \<^verbatim>\<open>group_number\<close> and
  \<^verbatim>\<open>project_name\<close>, added or overwritten. The dataset returned is the one written to the
  output file. On a dataset without rows \<^verbatim>\<open>Series.apply\<close> returns an empty series, not a
  table with the two columns, and selecting \<^verbatim>\<open>parsed_data["group_number"]\<close> raises
  \<^verbatim>\<open>KeyError\<close>.
\<close>

fun parse_names :: "string list \<Rightarrow> py_error + (string \<times> string) list" where
  "parse_names [] = Inr []"
| "parse_names (n # ns) =
     (case parse_repo_name n default_pattern of
        Inl e \<Rightarrow> Inl e
      | Inr p \<Rightarrow> (case parse_names ns of Inl e \<Rightarrow> Inl e | Inr ps \<Rightarrow> Inr (p # ps)))"

definition set_parsed :: "row \<Rightarrow> string \<times> string \<Rightarrow> row" where
  "set_parsed r p =
     r\<lparr>group_number := Some (Str (fst p)), project_name := Some (Text (snd p))\<rparr>"

definition parse_repos_csv :: "row list \<Rightarrow> py_error + row list" where
  "parse_repos_csv df =
     (case parse_names (map name df) of
        Inl e \<Rightarrow> Inl e
      | Inr parsed_data \<Rightarrow>
          if df = [] then Inl KeyError
          else Inr (map2 set_parsed df parsed_data))"

text \<open>The pair that \<^verbatim>\<open>parse_repo_name\<close> computes for a name, with the default pattern.\<close>

definition decompose :: "string \<Rightarrow> string \<times> string" where
  "decompose n =
     (if \<not> prefix default_pattern n then ('''', '''')
      else (case find_sep (CHR ''_'') (drop (length default_pattern) n) of
              None \<Rightarrow> (drop (length default_pattern) n, '''')
            | Some (g, p) \<Rightarrow> (g, p)))"

section \<open>Repository discovery (01-fetch\_repos.py)\<close>

text \<open>
  The process environment \<^verbatim>\<open>os.environ\<close> is a map from names to values; a name can be
  unset, or set to any string, the empty one included. \<^verbatim>\<open>os.getenv(k, "")\<close> reads it.
  \<^verbatim>\<open>load_dotenv()\<close> is called with its defaults: of the assignments of the \<^verbatim>\<open>.env\<close> file
  it puts into the environment those whose names are not set there yet, and it leaves
  every variable that is already set as it is.
\<close>

definition getenv :: "(string \<rightharpoonup> string) \<Rightarrow> string \<Rightarrow> string" where
  "getenv env k = (case env k of None \<Rightarrow> '''' | Some v \<Rightarrow> v)"

definition load_dotenv :: "(string \<rightharpoonup> string) \<Rightarrow> (string \<rightharpoonup> string) \<Rightarrow> (string \<rightharpoonup> string)" where
  "load_dotenv dotenv_file env = (\<lambda>k. case env k of Some v \<Rightarrow> Some v | None \<Rightarrow> dotenv_file k)"

text \<open>
  The state of credential resolution: the environment, whether the \<^verbatim>\<open>.env\<close> file has been
  loaded, and whether the user has been prompted. \<open>typed\<close> is what the user enters at the
  prompt of \<^verbatim>\<open>getpass\<close>.
\<close>

record cred_state =
  environ :: "string \<rightharpoonup> string"
  dotenv_loaded :: bool
  prompted :: bool

definition get_github_token ::
  "(string \<rightharpoonup> string) \<Rightarrow> string \<Rightarrow> cred_state \<Rightarrow> (py_error + string) \<times> cred_state" where
  "get_github_token dotenv_file typed st0 =
     (let token1 = strip (getenv (environ st0) ''GITHUB_TOKEN'');
          token2 = (if token1 = [] then strip (getenv (environ st0) ''GITHUB_PAT'') else token1);
          st1 = (if token2 = []
                 then st0\<lparr>environ := load_dotenv dotenv_file (environ st0), dotenv_loaded := True\<rparr>
                 else st0);
          token3 = (if token2 = [] then strip (getenv (environ st1) ''GITHUB_TOKEN'') else token2);
          token4 = (if token3 = [] then strip (getenv (environ st1) ''GITHUB_PAT'') else token3);
          st2 = (if token4 = [] then st1\<lparr>prompted := True\<rparr> else st1);
          token5 = (if token4 = [] then strip typed else token4)
      in if token5 = [] then (Inl ValueError, st2) else (Inr token5, st2))"

text \<open>
  A repository as the GitHub client lists it; \<open>None\<close> is Python's \<^verbatim>\<open>None\<close>. The listing
  of the organisation (all its pages) is the result of \<open>github_api\<close> on the token, or an
  error of the client.
\<close>

record gh_repo =
  gh_name :: string
  gh_full_name :: string
  gh_html_url :: string
  gh_description :: "string option"
  gh_created_at :: "string option"
  gh_updated_at :: "string option"
  gh_private :: bool

definition or_empty :: "string option \<Rightarrow> string" where
  "or_empty v = (case v of None \<Rightarrow> '''' | Some s \<Rightarrow> s)"

definition repo_entry :: "gh_repo \<Rightarrow> row" where
  "repo_entry repo =
     \<lparr>name = gh_name repo,
      full_name = gh_full_name repo,
      html_url = Text (gh_html_url repo),
      description = Text (or_empty (gh_description repo)),
      created_at = Text (or_empty (gh_created_at repo)),
      updated_at = Text (or_empty (gh_updated_at repo)),
      private_repo = gh_private repo,
      group_number = None, project_name = None, sketch_path = None\<rparr>"

definition fetch_ubc_mds_repos ::
  "(string \<Rightarrow> py_error + gh_repo list) \<Rightarrow> string \<Rightarrow> string \<Rightarrow> py_error + row list" where
  "fetch_ubc_mds_repos github_api pattern token =
     (case github_api token of
        Inl e \<Rightarrow> Inl e
      | Inr listing \<Rightarrow>
          Inr (map repo_entry (filter (\<lambda>repo. prefix pattern (gh_name repo)) listing)))"

text \<open>
  The file system of the project: the directories that exist and the dataset files, each
  holding its header and its rows. Paths are written relative to the project root.
\<close>

record file_system =
  dirs :: "string set"
  csv_files :: "string \<rightharpoonup> (string list \<times> row list)"

definition fieldnames :: "string list" where
  "fieldnames =
     [''name'', ''full_name'', ''html_url'', ''description'', ''created_at'', ''updated_at'',
      ''private'']"

definition save_to_csv :: "row list \<Rightarrow> string \<Rightarrow> file_system \<Rightarrow> file_system" where
  "save_to_csv repos filename fs =
     (if repos = [] then fs
      else fs\<lparr>csv_files := (csv_files fs)(filename \<mapsto> (fieldnames, repos))\<rparr>)"

definition fetch_main ::
  "(string \<rightharpoonup> string) \<Rightarrow> string \<Rightarrow> (string \<Rightarrow> py_error + gh_repo list) \<Rightarrow>
   cred_state \<Rightarrow> file_system \<Rightarrow> (py_error + row list) \<times> cred_state \<times> file_system" where
  "fetch_main dotenv_file typed github_api st fs =
     (case get_github_token dotenv_file typed st of
        (Inl e, st1) \<Rightarrow> (Inl e, st1, fs)
      | (Inr token, st1) \<Rightarrow>
          (case fetch_ubc_mds_repos github_api ''DSCI-532_2026_'' token of
             Inl e \<Rightarrow> (Inl e, st1, fs)
           | Inr repos \<Rightarrow>
               if repos \<noteq> [] then
                 (let fs1 = fs\<lparr>dirs := insert ''data'' (dirs fs)\<rparr>;
                      fs2 = save_to_csv repos ''data/dsci_532_repos.csv'' fs1
                  in (Inr repos, st1, fs2))
               else (Inr repos, st1, fs)))"

section \<open>Asset retrieval (03-download\_sketches.py)\<close>

subsection \<open>Paths\<close>

text \<open>
  A \<^verbatim>\<open>pathlib\<close> path on a POSIX system is an anchor (empty for a relative path, one
  slash for an absolute one, two slashes when the string starts with exactly two) and a
  list of components. Parsing a string cuts it at the slashes and drops the empty
  components and the components that are a single dot; the components \<^verbatim>\<open>..\<close> stay.
\<close>

datatype path = Path (anchor: string) (segments: "string list")

fun split_sep :: "char \<Rightarrow> string \<Rightarrow> string list" where
  "split_sep sep [] = [[]]"
| "split_sep sep (c # cs) =
     (if c = sep then [] # split_sep sep cs
      else (case split_sep sep cs of
              [] \<Rightarrow> [[c]]
            | x # xs \<Rightarrow> (c # x) # xs))"

definition splitroot :: "string \<Rightarrow> string \<times> string" where
  "splitroot p =
     (if take 1 p \<noteq> ''/'' then ('''', p)
      else if take 1 (drop 1 p) = ''/'' \<and> take 1 (drop 2 p) \<noteq> ''/'' then (''//'', drop 2 p)
      else (''/'', drop 1 p))"

definition parse_path :: "string \<Rightarrow> path" where
  "parse_path s =
     (case splitroot s of
        (root, rel) \<Rightarrow>
          Path root (filter (\<lambda>x. x \<noteq> [] \<and> x \<noteq> ''.'') (split_sep (CHR ''/'') rel)))"

text \<open>
  \<^verbatim>\<open>p / s\<close>: an absolute \<open>s\<close> replaces \<open>p\<close>, a relative one adds its components. Only a
  string (or another path) can be joined to a path: a number, NaN included, raises
  \<^verbatim>\<open>TypeError\<close>.
\<close>

definition truediv :: "path \<Rightarrow> string \<Rightarrow> path" where
  "truediv p s =
     (let q = parse_path s
      in if anchor q \<noteq> [] then q else Path (anchor p) (segments p @ segments q))"

definition truediv_cell :: "path \<Rightarrow> cell \<Rightarrow> py_error + path" where
  "truediv_cell p c =
     (case c of
        Str s \<Rightarrow> Inr (truediv p s)
      | IntV n \<Rightarrow> Inl TypeError
      | FloatNaN \<Rightarrow> Inl TypeError)"

definition path_parent :: "path \<Rightarrow> path" where
  "path_parent p = Path (anchor p) (butlast (segments p))"

text \<open>
  \<^verbatim>\<open>p.relative_to(other)\<close> compares the two paths component by component, without
  looking at the file system, and raises \<^verbatim>\<open>ValueError\<close> when \<open>p\<close> does not start with
  \<open>other\<close>.
\<close>

definition relative_to :: "path \<Rightarrow> path \<Rightarrow> py_error + path" where
  "relative_to p other =
     (if anchor p = anchor other \<and> prefix (segments other) (segments p)
      then Inr (Path [] (drop (length (segments other)) (segments p)))
      else Inl ValueError)"

definition str_of_path :: "path \<Rightarrow> string" where
  "str_of_path p =
     (if anchor p = [] \<and> segments p = [] then ''.''
      else anchor p @ join ''/'' (segments p))"

subsection \<open>The network and the file system\<close>

text \<open>
  \<^verbatim>\<open>requests.get(url, timeout=10)\<close> either raises an exception of the class
  \<^verbatim>\<open>RequestException\<close> (a timeout and a connection error are such) or returns a response
  with a status code and a payload. The network is a function \<open>http_get\<close> from the URL
  to that outcome. The state holds the directory of the project (the parent of the
  directory of the script, or the working directory in an interactive session) and
  records the URLs requested, in order, the paths given to \<^verbatim>\<open>mkdir\<close> and the files
  written, each under the string of its path. Local file operations are taken to succeed.
\<close>

datatype request_exception = Timeout | ConnectionError | OtherRequestException

type_synonym http_response = "request_exception + (nat \<times> string)"

record world =
  project_root :: path
  requested :: "string list"
  directories :: "string set"
  files :: "string \<rightharpoonup> string"

definition get_group_data_path :: "world \<Rightarrow> path" where
  "get_group_data_path w = truediv (project_root w) ''group_data''"

definition raw_url :: "string \<Rightarrow> string \<Rightarrow> string" where
  "raw_url repo_full branch =
     ''https://raw.githubusercontent.com/'' @ repo_full @ ''/'' @ branch @ ''/'' @ ''img/sketch.png''"

subsection \<open>Downloading\<close>

text \<open>
  The loop over the branch names. A response with a status code other than 200 returns
  nothing and the loop goes on; a \<^verbatim>\<open>RequestException\<close> is caught and the loop goes on.
  On a response with the status code 200 the payload is written, and the path of the file
  relative to the project directory is returned; the \<^verbatim>\<open>ValueError\<close> of
  \<^verbatim>\<open>relative_to\<close> is not caught by the handler.
\<close>

fun try_branches ::
  "(string \<Rightarrow> http_response) \<Rightarrow> string \<Rightarrow> path \<Rightarrow> path \<Rightarrow> string list \<Rightarrow> world \<Rightarrow>
   (py_error + string option) \<times> world" where
  "try_branches http_get repo_full group_dir group_data_dir [] w = (Inr None, w)"
| "try_branches http_get repo_full group_dir group_data_dir (branch # rest) w =
     (let url = raw_url repo_full branch;
          w1 = w\<lparr>requested := requested w @ [url]\<rparr>
      in case http_get url of
           Inl exn \<Rightarrow> try_branches http_get repo_full group_dir group_data_dir rest w1
         | Inr (status_code, content) \<Rightarrow>
             if status_code = 200 then
               (let output_path = truediv group_dir ''sketch.png'';
                    w2 = w1\<lparr>files := (files w1)(str_of_path output_path \<mapsto> content)\<rparr>
                in case relative_to output_path (path_parent group_data_dir) of
                     Inl e \<Rightarrow> (Inl e, w2)
                   | Inr rel \<Rightarrow> (Inr (Some (str_of_path rel)), w2))
             else try_branches http_get repo_full group_dir group_data_dir rest w1)"

text \<open>
  \<^verbatim>\<open>download_sketch\<close>: the directory of the group is \<^verbatim>\<open>group_data_dir / group_number\<close>,
  which raises for a group number that is not a string, before anything is requested.
\<close>

definition download_sketch ::
  "(string \<Rightarrow> http_response) \<Rightarrow> string \<Rightarrow> cell \<Rightarrow> path \<Rightarrow> world \<Rightarrow>
   (py_error + string option) \<times> world" where
  "download_sketch http_get repo_full c group_data_dir w =
     (case truediv_cell group_data_dir c of
        Inl e \<Rightarrow> (Inl e, w)
      | Inr group_dir \<Rightarrow>
          (let w1 = w\<lparr>directories := insert (str_of_path group_dir) (directories w)\<rparr>
           in try_branches http_get repo_full group_dir group_data_dir
                [''main'', ''master''] w1))"

text \<open>The loop of \<^verbatim>\<open>download_all_sketches\<close> over the rows, collecting \<^verbatim>\<open>sketch_paths\<close>.\<close>

fun sketch_loop ::
  "(string \<Rightarrow> http_response) \<Rightarrow> path \<Rightarrow> row list \<Rightarrow> world \<Rightarrow>
   (py_error + string list) \<times> world" where
  "sketch_loop http_get group_data_dir [] w = (Inr [], w)"
| "sketch_loop http_get group_data_dir (r # rs) w =
     (case group_number r of
        None \<Rightarrow> (Inl KeyError, w)
      | Some c \<Rightarrow>
          if \<not> truthy c then
            (case sketch_loop http_get group_data_dir rs w of
               (Inl e, w') \<Rightarrow> (Inl e, w')
             | (Inr paths, w') \<Rightarrow> (Inr ('''' # paths), w'))
          else
            (case download_sketch http_get (full_name r) c group_data_dir w of
               (Inl e, w1) \<Rightarrow> (Inl e, w1)
             | (Inr found, w1) \<Rightarrow>
                 (case sketch_loop http_get group_data_dir rs w1 of
                    (Inl e, w') \<Rightarrow> (Inl e, w')
                  | (Inr paths, w') \<Rightarrow>
                      (Inr ((case found of
                               None \<Rightarrow> ''''
                             | Some p \<Rightarrow> if p \<noteq> [] then p else '''') # paths), w'))))"

definition download_all_sketches ::
  "(string \<Rightarrow> http_response) \<Rightarrow> row list \<Rightarrow> world \<Rightarrow> (py_error + row list) \<times> world" where
  "download_all_sketches http_get df w =
     (let group_data_dir = get_group_data_path w;
          w0 = w\<lparr>directories := insert (str_of_path group_data_dir) (directories w)\<rparr>
      in case sketch_loop http_get group_data_dir df w0 of
           (Inl e, w1) \<Rightarrow> (Inl e, w1)
         | (Inr sketch_paths, w1) \<Rightarrow>
             (Inr (map2 (\<lambda>r p. r\<lparr>sketch_path := Some (Text p)\<rparr>) df sketch_paths), w1))"

section \<open>Page generation (04-generate\_quarto\_pages.py)\<close>

definition newline :: string where
  "newline = [CHR 0x0A]"

definition dquote :: string where
  "dquote = [CHR 0x22]"

definition link_button :: "text_cell \<Rightarrow> string" where
  "link_button url = ''[Repo]('' @ format_text url @ ''){.btn .btn-primary .btn-sm}''"

definition placeholder_image :: string where
  "placeholder_image = ''https://via.placeholder.com/400x300?text=No+Sketch''"

definition title_line :: "string \<Rightarrow> string" where
  "title_line group_num = ''title: '' @ dquote @ ''Group '' @ group_num @ dquote"

text \<open>The text of a page: the front matter and the fixed body line.\<close>

definition page_content :: "string \<Rightarrow> string \<Rightarrow> string \<Rightarrow> string \<Rightarrow> int \<Rightarrow> string" where
  "page_content group_num project card_description image_path sort_order =
     ''---'' @ newline
     @ title_line group_num @ newline
     @ ''subtitle: '' @ dquote @ project @ dquote @ newline
     @ ''description: |'' @ newline
     @ ''  '' @ card_description @ newline
     @ ''image: '' @ image_path @ newline
     @ ''order: '' @ str_of_int sort_order @ newline
     @ ''---'' @ newline
     @ newline
     @ ''This page displays in the project listing grid.'' @ newline"

text \<open>
  \<^verbatim>\<open>create_project_page\<close>: the file name and the text written to it. The description and
  the sketch path are checked once more for emptiness and for the missing value.
\<close>

definition create_project_page ::
  "string \<Rightarrow> text_cell \<Rightarrow> text_cell \<Rightarrow> text_cell \<Rightarrow> text_cell \<Rightarrow> int \<Rightarrow> string \<times> string" where
  "create_project_page group_num project url descr sketch sort_order =
     (let filename = ''group-'' @ group_num @ ''.qmd'';
          image_path =
            (if truthy_text sketch \<and> notna sketch then ''../'' @ format_text sketch
             else placeholder_image);
          clean_description =
            (if truthy_text descr \<and> notna descr then descr else Text '''');
          desc_lines =
            (if truthy_text clean_description then [format_text clean_description, '''']
             else [])
            @ [link_button url];
          card_description = join (newline @ ''  '') desc_lines
      in (filename,
          page_content group_num (format_text project) card_description image_path sort_order))"

text \<open>
  The fields of a row as \<^verbatim>\<open>generate_all_pages\<close> reads them before it creates the page:
  \<^verbatim>\<open>project_name\<close>, \<^verbatim>\<open>description\<close> and \<^verbatim>\<open>sketch_path\<close> are replaced by the empty
  string when they are missing, the \<^verbatim>\<open>sketch_path\<close> column also when it is absent;
  \<^verbatim>\<open>html_url\<close> is taken as it is. A dataset without the \<^verbatim>\<open>project_name\<close> column raises
  \<^verbatim>\<open>KeyError\<close>.
\<close>

definition normalize :: "text_cell \<Rightarrow> text_cell" where
  "normalize c = (if notna c then c else Text '''')"

definition row_page :: "row \<Rightarrow> string \<Rightarrow> int \<Rightarrow> py_error + (string \<times> string)" where
  "row_page r group_num sort_order =
     (case project_name r of
        None \<Rightarrow> Inl KeyError
      | Some pn \<Rightarrow>
          Inr (create_project_page group_num (normalize pn) (html_url r)
                 (normalize (description r))
                 (case sketch_path r of None \<Rightarrow> Text '''' | Some sp \<Rightarrow> normalize sp)
                 sort_order))"

text \<open>
  The first pass. A row without group number is skipped; a group number that converts
  gets its page at once; one whose conversion raises \<^verbatim>\<open>ValueError\<close> or \<^verbatim>\<open>TypeError\<close> is
  kept for the second pass; any other exception leaves the loop. The state is the list of
  pages written so far, each a file name and a text, in the order of writing (a later
  page of the same name replaces the earlier file).
\<close>

fun first_pass ::
  "row list \<Rightarrow> (string \<times> string) list \<Rightarrow> (cell \<times> row) list \<Rightarrow>
   (py_error + (cell \<times> row) list) \<times> (string \<times> string) list" where
  "first_pass [] written non_numeric_groups = (Inr non_numeric_groups, written)"
| "first_pass (r # rs) written non_numeric_groups =
     (case group_number r of
        None \<Rightarrow> (Inl KeyError, written)
      | Some c \<Rightarrow>
          if \<not> truthy c \<or> isna c then first_pass rs written non_numeric_groups
          else
            (case int_float c of
               Inl e \<Rightarrow>
                 if e = ValueError \<or> e = TypeError
                 then first_pass rs written (non_numeric_groups @ [(c, r)])
                 else (Inl e, written)
             | Inr group_num_int \<Rightarrow>
                 (case row_page r (str_of_int group_num_int) group_num_int of
                    Inl e \<Rightarrow> (Inl e, written)
                  | Inr page \<Rightarrow> first_pass rs (written @ [page]) non_numeric_groups)))"

text \<open>
  The second pass over the sorted list, with \<^verbatim>\<open>enumerate\<close>. Only strings reach the list
  (an integer converts or overflows, NaN is skipped before), and \<^verbatim>\<open>list.sort\<close> is stable;
  the key of the sort is the group number, compared as Python compares strings: by code
  points, a proper prefix first.
\<close>

fun second_pass ::
  "nat \<Rightarrow> (cell \<times> row) list \<Rightarrow> (string \<times> string) list \<Rightarrow>
   (py_error + unit) \<times> (string \<times> string) list" where
  "second_pass idx [] written = (Inr (), written)"
| "second_pass idx ((c, r) # rest) written =
     (case row_page r (str_of_cell c) (9000 + int idx) of
        Inl e \<Rightarrow> (Inl e, written)
      | Inr page \<Rightarrow> second_pass (Suc idx) rest (written @ [page]))"

definition generate_all_pages ::
  "row list \<Rightarrow> (py_error + unit) \<times> (string \<times> string) list" where
  "generate_all_pages df =
     (case first_pass df [] [] of
        (Inl e, written) \<Rightarrow> (Inl e, written)
      | (Inr non_numeric_groups, written) \<Rightarrow>
          second_pass 0 (sort_key (\<lambda>x. str_of_cell (fst x)) non_numeric_groups) written)"

section \<open>Sample records\<close>

text \<open>
  A record of the dataset after name decomposition, with the given repository name and
  group number, for stating the behaviour of the stages on concrete input.
\<close>

definition sample_row :: "string \<Rightarrow> cell \<Rightarrow> row" where
  "sample_row repo c =
     \<lparr>name = repo, full_name = ''UBC-MDS/'' @ repo,
      html_url = Text (''https://github.com/UBC-MDS/'' @ repo),
      description = Missing, created_at = Text ''2026-01-05'', updated_at = Text ''2026-01-06'',
      private_repo = False, group_number = Some c, project_name = Some Missing,
      sketch_path = None\<rparr>"

text \<open>A fetch fails when it raises or answers with a status code other than 200.\<close>

definition fetch_failed :: "http_response \<Rightarrow> bool" where
  "fetch_failed response =
     (case response of Inl exn \<Rightarrow> True | Inr (status_code, content) \<Rightarrow> status_code \<noteq> 200)"

text \<open>A record with its missing text fields replaced by the empty string.\<close>

definition fill_missing :: "row \<Rightarrow> row" where
  "fill_missing r =
     r\<lparr>description := normalize (description r),
       project_name := map_option normalize (project_name r),
       sketch_path := Some (case sketch_path r of None \<Rightarrow> Text '''' | Some sp \<Rightarrow> normalize sp)\<rparr>"


text \<open>A project checked out under a home directory, before anything is requested or written.\<close>

definition sample_world :: world where
  "sample_world =
     \<lparr>project_root = Path ''/'' [''home'', ''ubc'', ''DSCI_532-projects''],
      requested = [], directories = {}, files = Map.empty\<rparr>"
section \<open>Properties of name decomposition\<close>

lemma find_sep_absent: "sep \<notin> set s \<Longrightarrow> find_sep sep s = None"
  by (induction s) auto

lemma find_sep_first:
  "sep \<notin> set g \<Longrightarrow> find_sep sep (g @ sep # p) = Some (g, p)"
  by (induction g) auto

lemma split_maxsplit1_absent: "sep \<notin> set s \<Longrightarrow> split_maxsplit1 s sep = [s]"
  by (simp add: split_maxsplit1_def find_sep_absent)

lemma split_maxsplit1_first:
  "sep \<notin> set g \<Longrightarrow> split_maxsplit1 (g @ sep # p) sep = [g, p]"
  by (simp add: split_maxsplit1_def find_sep_first)

lemma split_maxsplit1_length:
  "length (split_maxsplit1 s sep) = 1 \<or> length (split_maxsplit1 s sep) = 2"
  by (simp add: split_maxsplit1_def split: option.splits prod.splits)

lemma parse_no_prefix:
  "\<not> prefix pattern repo_name \<Longrightarrow> parse_repo_name repo_name pattern = Inr ('''', '''')"
  by (simp add: parse_repo_name_def)

lemma parse_no_underscore:
  "CHR ''_'' \<notin> set r \<Longrightarrow> parse_repo_name (pattern @ r) pattern = Inr (r, '''')"
  by (simp add: parse_repo_name_def split_maxsplit1_absent index_def)

lemma parse_underscore:
  "CHR ''_'' \<notin> set g \<Longrightarrow>
   parse_repo_name (pattern @ g @ CHR ''_'' # p) pattern = Inr (g, p)"
  by (simp add: parse_repo_name_def split_maxsplit1_first index_def)

lemma parse_example_full:
  "parse_repo_name ''DSCI-532_2026_12_my-project'' ''DSCI-532_2026_'' = Inr (''12'', ''my-project'')"
  using parse_underscore [of "''12''" "''DSCI-532_2026_''" "''my-project''"] by simp

lemma parse_example_group_only:
  "parse_repo_name ''DSCI-532_2026_7'' ''DSCI-532_2026_'' = Inr (''7'', '''')"
  using parse_no_underscore [of "''7''" "''DSCI-532_2026_''"] by simp

lemma parse_example_unrelated:
  "parse_repo_name ''unrelated-repo'' ''DSCI-532_2026_'' = Inr ('''', '''')"
  by (rule parse_no_prefix) simp

text \<open>
  C1. A name that does not start with the pattern is decomposed into two empty strings;
  a name that is the pattern followed by a remainder without underscore gives the
  remainder and an empty project name; a name that is the pattern, a group token without
  underscore, an underscore and any rest gives the group token and the rest, further
  underscores of the rest left as they are. The three examples of the specification hold.
\<close>

theorem parse_repo_name_spec:
  "(\<not> prefix pattern repo_name \<longrightarrow> parse_repo_name repo_name pattern = Inr ('''', ''''))
   \<and> (CHR ''_'' \<notin> set r \<longrightarrow> parse_repo_name (pattern @ r) pattern = Inr (r, ''''))
   \<and> (CHR ''_'' \<notin> set g \<longrightarrow>
        parse_repo_name (pattern @ g @ CHR ''_'' # p) pattern = Inr (g, p))
   \<and> parse_repo_name ''DSCI-532_2026_12_my-project'' ''DSCI-532_2026_''
        = Inr (''12'', ''my-project'')
   \<and> parse_repo_name ''DSCI-532_2026_7'' ''DSCI-532_2026_'' = Inr (''7'', '''')
   \<and> parse_repo_name ''unrelated-repo'' ''DSCI-532_2026_'' = Inr ('''', '''')"
  using parse_no_prefix parse_no_underscore parse_underscore
    parse_example_full parse_example_group_only parse_example_unrelated
  by blast

theorem parse_repo_name_spec_witness:
  "\<not> prefix ''DSCI-532_2026_'' ''other''
   \<and> CHR ''_'' \<notin> set ''7''
   \<and> CHR ''_'' \<notin> set ''12''
   \<and> parse_repo_name ''other'' ''DSCI-532_2026_'' = Inr ('''', '''')
   \<and> parse_repo_name (''DSCI-532_2026_'' @ ''7'') ''DSCI-532_2026_'' = Inr (''7'', '''')
   \<and> parse_repo_name (''DSCI-532_2026_'' @ ''12'' @ CHR ''_'' # ''a_b'') ''DSCI-532_2026_''
         = Inr (''12'', ''a_b'')"
  using parse_repo_name_spec [of "''DSCI-532_2026_''" "''other''" "''7''" "''12''" "''a_b''"]
  by simp

text \<open>
  C9. Name decomposition is total on strings: for every name and every pattern it returns
  a pair of strings and raises nothing, also for the empty name, the empty pattern and a
  name that is the bare pattern.
\<close>

theorem parse_repo_name_total:
  "(\<exists>g p. parse_repo_name repo_name pattern = Inr (g, p))
   \<and> parse_repo_name '''' pattern = Inr ('''', '''')
   \<and> parse_repo_name pattern pattern = Inr ('''', '''')
   \<and> parse_repo_name repo_name '''' = Inr (case find_sep (CHR ''_'') repo_name of
         None \<Rightarrow> (repo_name, '''') | Some (g, p) \<Rightarrow> (g, p))"
  by (auto simp: parse_repo_name_def split_maxsplit1_def index_def Let_def
      split: option.splits)


subsection \<open>Idempotence of the decomposition stage\<close>

lemma parse_repo_name_decompose:
  "parse_repo_name n default_pattern = Inr (decompose n)"
  by (auto simp: parse_repo_name_def decompose_def split_maxsplit1_def index_def Let_def
      split: option.splits)

lemma parse_names_decompose: "parse_names ns = Inr (map decompose ns)"
  by (induction ns) (simp_all add: parse_repo_name_decompose)

lemma map2_set_parsed:
  "map2 set_parsed df (map (decompose \<circ> name) df)
     = map (\<lambda>r. set_parsed r (decompose (name r))) df"
  by (induction df) simp_all

lemma parse_repos_csv_rows:
  "df \<noteq> [] \<Longrightarrow>
   parse_repos_csv df = Inr (map (\<lambda>r. set_parsed r (decompose (name r))) df)"
  by (simp add: parse_repos_csv_def parse_names_decompose map2_set_parsed)

lemma parse_repos_csv_empty: "parse_repos_csv [] = Inl KeyError"
  by (simp add: parse_repos_csv_def)

lemma parse_repos_csv_Inr:
  "parse_repos_csv df = Inr out \<Longrightarrow>
   df \<noteq> [] \<and> out = map (\<lambda>r. set_parsed r (decompose (name r))) df"
  by (cases "df = []") (simp_all add: parse_repos_csv_empty parse_repos_csv_rows)

lemma name_set_parsed: "name (set_parsed r p) = name r"
  by (simp add: set_parsed_def)

lemma set_parsed_twice: "set_parsed (set_parsed r p) p = set_parsed r p"
  by (simp add: set_parsed_def)

text \<open>
  C8. The decomposition stage is idempotent. When a run on a dataset succeeds with output
  \<open>out\<close>, a run on \<open>out\<close> succeeds and returns \<open>out\<close> again; and a run on any dataset with
  the same \<^verbatim>\<open>name\<close> column, whatever its \<^verbatim>\<open>group_number\<close> and \<^verbatim>\<open>project_name\<close> columns
  hold (for instance the values as read back from the file), computes the same two
  columns as \<open>out\<close> has, each row's pair being the decomposition of that row's name.
\<close>

theorem parse_repos_csv_idempotent:
  assumes "parse_repos_csv df = Inr out"
  shows "parse_repos_csv out = Inr out
    \<and> (\<forall>df2. map name df2 = map name out \<longrightarrow>
          (\<exists>out2. parse_repos_csv df2 = Inr out2
             \<and> map group_number out2 = map group_number out
             \<and> map project_name out2 = map project_name out))
    \<and> map (\<lambda>r. (group_number r, project_name r)) out
        = map (\<lambda>r. (Some (Str (fst (decompose (name r)))),
                     Some (Text (snd (decompose (name r)))))) df"
proof -
  from assms have ne: "df \<noteq> []"
    and out: "out = map (\<lambda>r. set_parsed r (decompose (name r))) df"
    using parse_repos_csv_Inr by blast+
  have out_ne: "out \<noteq> []" using ne out by simp
  have "map (\<lambda>r. set_parsed r (decompose (name r))) out = out"
    unfolding out by (simp add: name_set_parsed set_parsed_twice)
  then have again: "parse_repos_csv out = Inr out"
    using parse_repos_csv_rows [OF out_ne] by simp
  have cols: "map (\<lambda>r. (group_number r, project_name r)) out
        = map (\<lambda>r. (Some (Str (fst (decompose (name r)))),
                     Some (Text (snd (decompose (name r)))))) df"
    unfolding out by (simp add: set_parsed_def)
  have g: "map group_number (map (\<lambda>r. set_parsed r (decompose (name r))) d)
      = map (\<lambda>n. Some (Str (fst (decompose n)))) (map name d)" for d
    by (simp add: set_parsed_def)
  have p: "map project_name (map (\<lambda>r. set_parsed r (decompose (name r))) d)
      = map (\<lambda>n. Some (Text (snd (decompose n)))) (map name d)" for d
    by (simp add: set_parsed_def)
  have names_out: "map name out = map name df"
    unfolding out by (simp add: name_set_parsed)
  have other: "\<exists>out2. parse_repos_csv df2 = Inr out2
             \<and> map group_number out2 = map group_number out
             \<and> map project_name out2 = map project_name out"
    if names: "map name df2 = map name out" for df2
  proof -
    from names out_ne have ne2: "df2 \<noteq> []" by auto
    have eq: "map name df2 = map name df" using names names_out by simp
    have "map group_number (map (\<lambda>r. set_parsed r (decompose (name r))) df2)
        = map group_number out"
      unfolding out g eq ..
    moreover have "map project_name (map (\<lambda>r. set_parsed r (decompose (name r))) df2)
        = map project_name out"
      unfolding out p eq ..
    ultimately show ?thesis
      using parse_repos_csv_rows [OF ne2] by blast
  qed
  from again other cols show ?thesis by blast
qed

theorem parse_repos_csv_idempotent_witness:
  "parse_repos_csv
     [\<lparr>name = ''DSCI-532_2026_12_my-project'',
       full_name = ''UBC-MDS/DSCI-532_2026_12_my-project'',
       html_url = Text ''u'', description = Missing, created_at = Text ''c'',
       updated_at = Text ''d'', private_repo = False, group_number = Some (IntV 12),
       project_name = Some (Text ''my-project''), sketch_path = None\<rparr>]
   = Inr [\<lparr>name = ''DSCI-532_2026_12_my-project'',
       full_name = ''UBC-MDS/DSCI-532_2026_12_my-project'',
       html_url = Text ''u'', description = Missing, created_at = Text ''c'',
       updated_at = Text ''d'', private_repo = False, group_number = Some (Str ''12''),
       project_name = Some (Text ''my-project''), sketch_path = None\<rparr>]
   \<and> parse_repos_csv
     [\<lparr>name = ''DSCI-532_2026_12_my-project'',
       full_name = ''UBC-MDS/DSCI-532_2026_12_my-project'',
       html_url = Text ''u'', description = Missing, created_at = Text ''c'',
       updated_at = Text ''d'', private_repo = False, group_number = Some (Str ''12''),
       project_name = Some (Text ''my-project''), sketch_path = None\<rparr>]
   = Inr [\<lparr>name = ''DSCI-532_2026_12_my-project'',
       full_name = ''UBC-MDS/DSCI-532_2026_12_my-project'',
       html_url = Text ''u'', description = Missing, created_at = Text ''c'',
       updated_at = Text ''d'', private_repo = False, group_number = Some (Str ''12''),
       project_name = Some (Text ''my-project''), sketch_path = None\<rparr>]"
proof -
  have run: "parse_repos_csv
     [\<lparr>name = ''DSCI-532_2026_12_my-project'',
       full_name = ''UBC-MDS/DSCI-532_2026_12_my-project'',
       html_url = Text ''u'', description = Missing, created_at = Text ''c'',
       updated_at = Text ''d'', private_repo = False, group_number = Some (IntV 12),
       project_name = Some (Text ''my-project''), sketch_path = None\<rparr>]
   = Inr [\<lparr>name = ''DSCI-532_2026_12_my-project'',
       full_name = ''UBC-MDS/DSCI-532_2026_12_my-project'',
       html_url = Text ''u'', description = Missing, created_at = Text ''c'',
       updated_at = Text ''d'', private_repo = False, group_number = Some (Str ''12''),
       project_name = Some (Text ''my-project''), sketch_path = None\<rparr>]"
    by (simp add: parse_repos_csv_def parse_repo_name_def default_pattern_def
        split_maxsplit1_def index_def set_parsed_def)
  from parse_repos_csv_idempotent [OF run] run show ?thesis by blast
qed

section \<open>Properties of repository discovery\<close>

lemma getenv_load_dotenv_unset:
  "env k = None \<Longrightarrow> getenv (load_dotenv dotenv_file env) k = getenv dotenv_file k"
  by (simp add: getenv_def load_dotenv_def)

lemma getenv_load_dotenv_set:
  "env k = Some v \<Longrightarrow> getenv (load_dotenv dotenv_file env) k = v"
  by (simp add: getenv_def load_dotenv_def)

lemma getenv_unset: "env k = None \<Longrightarrow> getenv env k = ''''"
  by (simp add: getenv_def)

lemma getenv_set: "env k = Some v \<Longrightarrow> getenv env k = v"
  by (simp add: getenv_def)

lemma strip_Nil: "strip [] = []"
  by (simp add: strip_def)

lemma strip_no_space:
  assumes "\<not> is_space (hd s)" and "\<not> is_space (last s)"
  shows "strip s = s"
proof (cases "s = []")
  case True
  then show ?thesis by (simp add: strip_def)
next
  case False
  have front: "dropWhile is_space s = s"
    using assms(1) by (simp add: dropWhile_eq_self_iff)
  have "hd (rev s) = last s"
    using False by (simp add: hd_rev)
  then have rear: "dropWhile is_space (rev s) = rev s"
    using assms(2) by (simp add: dropWhile_eq_self_iff)
  show ?thesis
    by (simp add: strip_def front rear)
qed

text \<open>
  The resolution as a cascade over five lookups: the two variables in the environment,
  the same two after the file has been loaded into the environment, and the prompt; the
  first that is not blank is returned, stripped, and \<^verbatim>\<open>ValueError\<close> is raised exactly
  when all five are blank. The file is loaded only when the first two are blank, and the
  user is prompted only when the first four are.
\<close>

lemma get_github_token_lookups:
  "fst (get_github_token dotenv_file typed st) =
     (case find (\<lambda>t. t \<noteq> [])
        [strip (getenv (environ st) ''GITHUB_TOKEN''),
         strip (getenv (environ st) ''GITHUB_PAT''),
         strip (getenv (load_dotenv dotenv_file (environ st)) ''GITHUB_TOKEN''),
         strip (getenv (load_dotenv dotenv_file (environ st)) ''GITHUB_PAT''),
         strip typed] of
        None \<Rightarrow> Inl ValueError
      | Some token \<Rightarrow> Inr token)"
  unfolding get_github_token_def Let_def by simp

lemma get_github_token_effects:
  "dotenv_loaded (snd (get_github_token dotenv_file typed st)) =
     (dotenv_loaded st \<or>
      (strip (getenv (environ st) ''GITHUB_TOKEN'') = []
       \<and> strip (getenv (environ st) ''GITHUB_PAT'') = []))"
  "prompted (snd (get_github_token dotenv_file typed st)) =
     (prompted st \<or>
      (strip (getenv (environ st) ''GITHUB_TOKEN'') = []
       \<and> strip (getenv (environ st) ''GITHUB_PAT'') = []
       \<and> strip (getenv (load_dotenv dotenv_file (environ st)) ''GITHUB_TOKEN'') = []
       \<and> strip (getenv (load_dotenv dotenv_file (environ st)) ''GITHUB_PAT'') = []))"
  unfolding get_github_token_def Let_def by auto

text \<open>
  C6. The claim fails on the code. The user's environment has \<^verbatim>\<open>GITHUB_TOKEN\<close> set to the
  empty string and no \<^verbatim>\<open>GITHUB_PAT\<close>, the \<^verbatim>\<open>.env\<close> file assigns a token to
  \<^verbatim>\<open>GITHUB_TOKEN\<close>, and the user enters nothing at the prompt. The config file holds a
  non-empty value for the primary name, yet the function loads the file, prompts the
  user and raises \<^verbatim>\<open>ValueError\<close>: the variable that is set in the environment, though
  empty, keeps the value of the file out. With the variable unset, the value of the file
  is returned.
\<close>

theorem get_github_token_blank_env_hides_dotenv:
  "fst (get_github_token [''GITHUB_TOKEN'' \<mapsto> ''ghp_from_dotenv''] ''''
          \<lparr>environ = [''GITHUB_TOKEN'' \<mapsto> ''''], dotenv_loaded = False, prompted = False\<rparr>)
     = Inl ValueError
   \<and> dotenv_loaded (snd (get_github_token [''GITHUB_TOKEN'' \<mapsto> ''ghp_from_dotenv''] ''''
          \<lparr>environ = [''GITHUB_TOKEN'' \<mapsto> ''''], dotenv_loaded = False, prompted = False\<rparr>))
   \<and> prompted (snd (get_github_token [''GITHUB_TOKEN'' \<mapsto> ''ghp_from_dotenv''] ''''
          \<lparr>environ = [''GITHUB_TOKEN'' \<mapsto> ''''], dotenv_loaded = False, prompted = False\<rparr>))
   \<and> fst (get_github_token [''GITHUB_TOKEN'' \<mapsto> ''ghp_from_dotenv''] ''''
          \<lparr>environ = Map.empty, dotenv_loaded = False, prompted = False\<rparr>)
     = Inr ''ghp_from_dotenv''"
proof -
  have e1: "getenv [''GITHUB_TOKEN'' \<mapsto> ''''] ''GITHUB_TOKEN'' = ''''"
    by (simp add: getenv_def)
  have e2: "getenv [''GITHUB_TOKEN'' \<mapsto> ''''] ''GITHUB_PAT'' = ''''"
    by (simp add: getenv_def)
  have l1: "getenv (load_dotenv [''GITHUB_TOKEN'' \<mapsto> ''ghp_from_dotenv'']
              [''GITHUB_TOKEN'' \<mapsto> '''']) ''GITHUB_TOKEN'' = ''''"
    by (simp add: getenv_def load_dotenv_def)
  have l2: "getenv (load_dotenv [''GITHUB_TOKEN'' \<mapsto> ''ghp_from_dotenv'']
              [''GITHUB_TOKEN'' \<mapsto> '''']) ''GITHUB_PAT'' = ''''"
    by (simp add: getenv_def load_dotenv_def)
  have u1: "getenv Map.empty k = ''''" for k
    by (simp add: getenv_def)
  have u2: "getenv (load_dotenv [''GITHUB_TOKEN'' \<mapsto> ''ghp_from_dotenv''] Map.empty)
              ''GITHUB_TOKEN'' = ''ghp_from_dotenv''"
    by (simp add: getenv_def load_dotenv_def)
  have s: "strip ''ghp_from_dotenv'' = ''ghp_from_dotenv''"
    by (rule strip_no_space) (simp_all add: is_space_def)
  show ?thesis
    by (simp add: get_github_token_lookups get_github_token_effects e1 e2 l1 l2 u1 u2 s
        strip_Nil)
qed

lemma fetch_no_match:
  assumes "github_api token = Inr listing"
    and "\<forall>repo \<in> set listing. \<not> prefix pattern (gh_name repo)"
  shows "fetch_ubc_mds_repos github_api pattern token = Inr []"
proof -
  have "filter (\<lambda>repo. prefix pattern (gh_name repo)) listing = []"
    using assms(2) by (simp add: filter_empty_conv)
  then show ?thesis using assms(1) by (simp add: fetch_ubc_mds_repos_def)
qed

text \<open>
  C10. When the credential is resolved, the listing of the organisation is obtained and
  no repository of it has a name starting with the pattern, discovery returns the empty
  list without an error and leaves the file system as it was: no dataset file is created
  or changed and no directory is made. \<^verbatim>\<open>save_to_csv\<close> itself writes nothing for an empty
  list.
\<close>

theorem fetch_main_no_match_writes_nothing:
  assumes "fst (get_github_token dotenv_file typed st) = Inr token"
    and "github_api token = Inr listing"
    and "\<forall>repo \<in> set listing. \<not> prefix ''DSCI-532_2026_'' (gh_name repo)"
  shows "fst (fetch_main dotenv_file typed github_api st fs) = Inr []
    \<and> snd (snd (fetch_main dotenv_file typed github_api st fs)) = fs
    \<and> save_to_csv [] filename fs = fs"
proof -
  have none: "fetch_ubc_mds_repos github_api ''DSCI-532_2026_'' token = Inr []"
    using assms(2) assms(3) by (rule fetch_no_match)
  obtain st1 where tok: "get_github_token dotenv_file typed st = (Inr token, st1)"
    using assms(1) by (cases "get_github_token dotenv_file typed st") simp
  show ?thesis
    by (simp add: fetch_main_def tok none save_to_csv_def)
qed

theorem fetch_main_no_match_writes_nothing_witness:
  "fst (fetch_main Map.empty ''ghp_typed''
          (\<lambda>token. Inr [\<lparr>gh_name = ''unrelated-repo'', gh_full_name = ''UBC-MDS/unrelated-repo'',
                          gh_html_url = ''https://github.com/UBC-MDS/unrelated-repo'',
                          gh_description = None, gh_created_at = None, gh_updated_at = None,
                          gh_private = False\<rparr>])
          \<lparr>environ = Map.empty, dotenv_loaded = False, prompted = False\<rparr>
          \<lparr>dirs = {}, csv_files = [''data/dsci_532_repos.csv'' \<mapsto> ([''name''], [])]\<rparr>)
     = Inr []
   \<and> snd (snd (fetch_main Map.empty ''ghp_typed''
          (\<lambda>token. Inr [\<lparr>gh_name = ''unrelated-repo'', gh_full_name = ''UBC-MDS/unrelated-repo'',
                          gh_html_url = ''https://github.com/UBC-MDS/unrelated-repo'',
                          gh_description = None, gh_created_at = None, gh_updated_at = None,
                          gh_private = False\<rparr>])
          \<lparr>environ = Map.empty, dotenv_loaded = False, prompted = False\<rparr>
          \<lparr>dirs = {}, csv_files = [''data/dsci_532_repos.csv'' \<mapsto> ([''name''], [])]\<rparr>))
     = \<lparr>dirs = {}, csv_files = [''data/dsci_532_repos.csv'' \<mapsto> ([''name''], [])]\<rparr>"
proof -
  have u: "getenv Map.empty k = ''''" for k
    by (simp add: getenv_def)
  have l: "load_dotenv Map.empty Map.empty = Map.empty"
    by (simp add: load_dotenv_def)
  have s: "strip ''ghp_typed'' = ''ghp_typed''"
    by (rule strip_no_space) (simp_all add: is_space_def)
  have tok: "fst (get_github_token Map.empty ''ghp_typed''
          \<lparr>environ = Map.empty, dotenv_loaded = False, prompted = False\<rparr>) = Inr ''ghp_typed''"
    by (simp add: get_github_token_lookups u l s strip_Nil)
  have none: "\<forall>repo \<in> set [\<lparr>gh_name = ''unrelated-repo'', gh_full_name = ''UBC-MDS/unrelated-repo'',
                          gh_html_url = ''https://github.com/UBC-MDS/unrelated-repo'',
                          gh_description = None, gh_created_at = None, gh_updated_at = None,
                          gh_private = False\<rparr>]. \<not> prefix ''DSCI-532_2026_'' (gh_name repo)"
    by simp
  show ?thesis
    using fetch_main_no_match_writes_nothing
      [where github_api = "\<lambda>token. Inr [\<lparr>gh_name = ''unrelated-repo'',
                          gh_full_name = ''UBC-MDS/unrelated-repo'',
                          gh_html_url = ''https://github.com/UBC-MDS/unrelated-repo'',
                          gh_description = None, gh_created_at = None, gh_updated_at = None,
                          gh_private = False\<rparr>]"
         and token = "''ghp_typed''", OF tok _ none]
    by simp
qed

section \<open>Properties of asset retrieval\<close>

subsection \<open>Paths of group directories\<close>

lemma split_sep_absent: "sep \<notin> set s \<Longrightarrow> split_sep sep s = [s]"
  by (induction s) auto

text \<open>A group number without a slash, other than the empty string and the dot, is one component.\<close>

lemma parse_path_simple:
  assumes "CHR ''/'' \<notin> set g" and "g \<noteq> []" and "g \<noteq> ''.''"
  shows "parse_path g = Path [] [g]"
proof -
  from assms have "take 1 g \<noteq> ''/''" by (cases g) auto
  then show ?thesis
    using assms by (simp add: parse_path_def splitroot_def split_sep_absent)
qed

lemma parse_path_sketch: "parse_path ''sketch.png'' = Path [] [''sketch.png'']"
  by (simp add: parse_path_def splitroot_def)

lemma parse_path_group_data: "parse_path ''group_data'' = Path [] [''group_data'']"
  by (simp add: parse_path_def splitroot_def)

lemma get_group_data_path_segments:
  "get_group_data_path w =
     Path (anchor (project_root w)) (segments (project_root w) @ [''group_data''])"
  by (simp add: get_group_data_path_def truediv_def parse_path_group_data)

lemma truediv_relative:
  "anchor (parse_path g) = [] \<Longrightarrow>
   truediv gd g = Path (anchor gd) (segments gd @ segments (parse_path g))"
  by (simp add: truediv_def Let_def)

text \<open>
  For a group number that is a relative path, the file of the sketch lies under the
  project directory, so that \<^verbatim>\<open>relative_to\<close> does not raise.
\<close>

lemma relative_to_group:
  assumes "anchor (parse_path g) = []" and "segments gd \<noteq> []"
  shows "relative_to (truediv (truediv gd g) ''sketch.png'') (path_parent gd) =
     Inr (Path [] (last (segments gd) # segments (parse_path g) @ [''sketch.png'']))"
proof -
  from assms(2) obtain front l where gd: "segments gd = front @ [l]"
    by (cases "segments gd" rule: rev_cases) auto
  have "truediv (truediv gd g) ''sketch.png'' =
      Path (anchor gd) (front @ l # segments (parse_path g) @ [''sketch.png''])"
    using assms(1) gd by (simp add: truediv_relative parse_path_sketch)
  then show ?thesis
    using gd by (simp add: relative_to_def path_parent_def)
qed

subsection \<open>The two branches\<close>

lemma try_branches_two:
  "try_branches http_get repo group_dir gd [''main'', ''master''] w =
     (case http_get (raw_url repo ''main'') of
        Inr (status_code, content) \<Rightarrow>
          if status_code = 200
          then (case relative_to (truediv group_dir ''sketch.png'') (path_parent gd) of
                  Inl e \<Rightarrow>
                    (Inl e,
                     w\<lparr>requested := requested w @ [raw_url repo ''main''],
                       files := (files w)
                         (str_of_path (truediv group_dir ''sketch.png'') \<mapsto> content)\<rparr>)
                | Inr rel \<Rightarrow>
                    (Inr (Some (str_of_path rel)),
                     w\<lparr>requested := requested w @ [raw_url repo ''main''],
                       files := (files w)
                         (str_of_path (truediv group_dir ''sketch.png'') \<mapsto> content)\<rparr>))
          else try_branches http_get repo group_dir gd [''master'']
                 (w\<lparr>requested := requested w @ [raw_url repo ''main'']\<rparr>)
      | Inl exn \<Rightarrow> try_branches http_get repo group_dir gd [''master'']
                 (w\<lparr>requested := requested w @ [raw_url repo ''main'']\<rparr>))"
  by (simp add: Let_def split: sum.splits prod.splits)

lemma try_branches_one:
  "try_branches http_get repo group_dir gd [''master''] w =
     (case http_get (raw_url repo ''master'') of
        Inr (status_code, content) \<Rightarrow>
          if status_code = 200
          then (case relative_to (truediv group_dir ''sketch.png'') (path_parent gd) of
                  Inl e \<Rightarrow>
                    (Inl e,
                     w\<lparr>requested := requested w @ [raw_url repo ''master''],
                       files := (files w)
                         (str_of_path (truediv group_dir ''sketch.png'') \<mapsto> content)\<rparr>)
                | Inr rel \<Rightarrow>
                    (Inr (Some (str_of_path rel)),
                     w\<lparr>requested := requested w @ [raw_url repo ''master''],
                       files := (files w)
                         (str_of_path (truediv group_dir ''sketch.png'') \<mapsto> content)\<rparr>))
          else (Inr None, w\<lparr>requested := requested w @ [raw_url repo ''master'']\<rparr>)
      | Inl exn \<Rightarrow> (Inr None, w\<lparr>requested := requested w @ [raw_url repo ''master'']\<rparr>))"
  by (simp add: Let_def split: sum.splits prod.splits)

text \<open>
  For a group number held as a string that is a relative path, \<^verbatim>\<open>download_sketch\<close>
  behaves as described: \<^verbatim>\<open>main\<close> is requested first, and when it succeeds nothing else is
  requested.
\<close>

lemma download_sketch_primary:
  assumes "http_get (raw_url repo ''main'') = Inr (200, payload)"
    and "anchor (parse_path g) = []" and "segments gd \<noteq> []"
  shows "download_sketch http_get repo (Str g) gd w =
     (Inr (Some (join ''/'' (last (segments gd) # segments (parse_path g) @ [''sketch.png'']))),
      w\<lparr>directories := insert (str_of_path (truediv gd g)) (directories w),
        requested := requested w @ [raw_url repo ''main''],
        files := (files w)
          (str_of_path (truediv (truediv gd g) ''sketch.png'') \<mapsto> payload)\<rparr>)"
  using assms(1)
  by (simp add: download_sketch_def truediv_cell_def Let_def try_branches_two
      relative_to_group [OF assms(2,3)] str_of_path_def)

text \<open>When \<^verbatim>\<open>main\<close> fails and \<^verbatim>\<open>master\<close> succeeds, the payload of \<^verbatim>\<open>master\<close> is saved.\<close>

lemma download_sketch_secondary:
  assumes "fetch_failed (http_get (raw_url repo ''main''))"
    and "http_get (raw_url repo ''master'') = Inr (200, payload)"
    and "anchor (parse_path g) = []" and "segments gd \<noteq> []"
  shows "download_sketch http_get repo (Str g) gd w =
     (Inr (Some (join ''/'' (last (segments gd) # segments (parse_path g) @ [''sketch.png'']))),
      w\<lparr>directories := insert (str_of_path (truediv gd g)) (directories w),
        requested := requested w @ [raw_url repo ''main'', raw_url repo ''master''],
        files := (files w)
          (str_of_path (truediv (truediv gd g) ''sketch.png'') \<mapsto> payload)\<rparr>)"
  using assms(1,2)
  by (simp add: download_sketch_def truediv_cell_def Let_def try_branches_two try_branches_one
      relative_to_group [OF assms(3,4)] str_of_path_def fetch_failed_def
      split: sum.splits prod.splits)

text \<open>When both fail, nothing is saved and nothing is returned, whatever the string.\<close>

lemma download_sketch_none:
  assumes "fetch_failed (http_get (raw_url repo ''main''))"
    and "fetch_failed (http_get (raw_url repo ''master''))"
  shows "download_sketch http_get repo (Str g) gd w =
     (Inr None,
      w\<lparr>directories := insert (str_of_path (truediv gd g)) (directories w),
        requested := requested w @ [raw_url repo ''main'', raw_url repo ''master'']\<rparr>)"
  using assms
  by (simp add: download_sketch_def truediv_cell_def Let_def try_branches_two try_branches_one
      fetch_failed_def split: sum.splits prod.splits)

text \<open>The loop then records the empty string for the record and goes on.\<close>

lemma sketch_loop_none:
  assumes "group_number r = Some (Str g)" and "g \<noteq> []"
    and "fetch_failed (http_get (raw_url (full_name r) ''main''))"
    and "fetch_failed (http_get (raw_url (full_name r) ''master''))"
  shows "sketch_loop http_get gd (r # rs) w =
     (case sketch_loop http_get gd rs
             (w\<lparr>directories := insert (str_of_path (truediv gd g)) (directories w),
                requested := requested w
                  @ [raw_url (full_name r) ''main'', raw_url (full_name r) ''master'']\<rparr>) of
        (Inl e, w') \<Rightarrow> (Inl e, w')
      | (Inr paths, w') \<Rightarrow> (Inr ('''' # paths), w'))"
  using assms(1,2)
  by (simp add: truthy_def download_sketch_none [OF assms(3,4)] split: prod.splits sum.splits)

text \<open>A group number that is not a string stops the loop before anything is requested.\<close>

lemma sketch_loop_not_string:
  assumes "group_number r = Some c" and "truthy c" and "\<forall>s. c \<noteq> Str s"
  shows "sketch_loop http_get gd (r # rs) w = (Inl TypeError, w)"
  using assms
  by (cases c) (simp_all add: download_sketch_def truediv_cell_def)

lemma sample_row_stage3:
  "group_number (sample_row repo c) = Some c"
  "full_name (sample_row repo c) = ''UBC-MDS/'' @ repo"
  by (simp_all add: sample_row_def)

text \<open>
  C3. The claim fails on the code. In a dataset whose group numbers are all numeric, as
  that of the repository \<^verbatim>\<open>DSCI-532_2026_12_app\<close> alone, asset retrieval reads the column
  back as integers. The record has a non-empty group number, but joining the directory
  path with the integer raises \<^verbatim>\<open>TypeError\<close> before the first request: no branch is
  tried, nothing is saved, no sketch path is recorded, and the stage ends with the error,
  whatever the network answers and whatever records follow. When the same group number
  is read as a string (the column also holds the group \<^verbatim>\<open>a\<close>), on a network where only
  \<^verbatim>\<open>master\<close> of the first repository has the file and every other request times out:
  \<^verbatim>\<open>main\<close> is requested first, then \<^verbatim>\<open>master\<close>, whose payload is saved and whose path is
  recorded; for the second record both branches fail, the empty string is recorded, and
  the stage returns.
\<close>

theorem download_all_sketches_integer_group_number:
  "fst (download_all_sketches http_get
          (sample_row ''DSCI-532_2026_12_app'' (IntV 12) # rs) w)
     = Inl TypeError
   \<and> requested (snd (download_all_sketches http_get
          (sample_row ''DSCI-532_2026_12_app'' (IntV 12) # rs) w))
     = requested w
   \<and> files (snd (download_all_sketches http_get
          (sample_row ''DSCI-532_2026_12_app'' (IntV 12) # rs) w))
     = files w
   \<and> fst (download_all_sketches
          (\<lambda>url. if url = raw_url ''UBC-MDS/DSCI-532_2026_12_app'' ''master''
                  then Inr (200, ''PNG'') else Inl Timeout)
          [sample_row ''DSCI-532_2026_12_app'' (Str ''12''),
           sample_row ''DSCI-532_2026_a_app'' (Str ''a'')] sample_world)
     = Inr [(sample_row ''DSCI-532_2026_12_app'' (Str ''12''))
              \<lparr>sketch_path := Some (Text ''group_data/12/sketch.png'')\<rparr>,
            (sample_row ''DSCI-532_2026_a_app'' (Str ''a''))
              \<lparr>sketch_path := Some (Text '''')\<rparr>]
   \<and> requested (snd (download_all_sketches
          (\<lambda>url. if url = raw_url ''UBC-MDS/DSCI-532_2026_12_app'' ''master''
                  then Inr (200, ''PNG'') else Inl Timeout)
          [sample_row ''DSCI-532_2026_12_app'' (Str ''12''),
           sample_row ''DSCI-532_2026_a_app'' (Str ''a'')] sample_world))
     = [raw_url ''UBC-MDS/DSCI-532_2026_12_app'' ''main'',
        raw_url ''UBC-MDS/DSCI-532_2026_12_app'' ''master'',
        raw_url ''UBC-MDS/DSCI-532_2026_a_app'' ''main'',
        raw_url ''UBC-MDS/DSCI-532_2026_a_app'' ''master'']
   \<and> files (snd (download_all_sketches
          (\<lambda>url. if url = raw_url ''UBC-MDS/DSCI-532_2026_12_app'' ''master''
                  then Inr (200, ''PNG'') else Inl Timeout)
          [sample_row ''DSCI-532_2026_12_app'' (Str ''12''),
           sample_row ''DSCI-532_2026_a_app'' (Str ''a'')] sample_world))
        ''/home/ubc/DSCI_532-projects/group_data/12/sketch.png''
     = Some ''PNG''"
proof -
  let ?net = "\<lambda>url. if url = raw_url ''UBC-MDS/DSCI-532_2026_12_app'' ''master''
                  then Inr (200, ''PNG'') else Inl Timeout :: http_response"
  let ?gd = "Path ''/'' [''home'', ''ubc'', ''DSCI_532-projects'', ''group_data'']"
  have int: "sketch_loop http_get gd (sample_row ''DSCI-532_2026_12_app'' (IntV 12) # rs) w0
       = (Inl TypeError, w0)" for gd w0
    by (rule sketch_loop_not_string [of _ "IntV 12"]) (simp_all add: sample_row_stage3 truthy_def)
  have gd: "get_group_data_path sample_world = ?gd"
    by (simp add: get_group_data_path_segments sample_world_def)
  have p12: "parse_path ''12'' = Path [] [''12'']"
    by (rule parse_path_simple) simp_all
  have pa: "parse_path ''a'' = Path [] [''a'']"
    by (rule parse_path_simple) simp_all
  have urls: "raw_url ''UBC-MDS/DSCI-532_2026_12_app'' ''main''
        \<noteq> raw_url ''UBC-MDS/DSCI-532_2026_12_app'' ''master''"
    "raw_url ''UBC-MDS/DSCI-532_2026_a_app'' ''main''
        \<noteq> raw_url ''UBC-MDS/DSCI-532_2026_12_app'' ''master''"
    "raw_url ''UBC-MDS/DSCI-532_2026_a_app'' ''master''
        \<noteq> raw_url ''UBC-MDS/DSCI-532_2026_12_app'' ''master''"
    by (simp_all add: raw_url_def)
  have first: "download_sketch ?net ''UBC-MDS/DSCI-532_2026_12_app'' (Str ''12'') ?gd w0 =
       (Inr (Some ''group_data/12/sketch.png''),
        w0\<lparr>directories := insert ''/home/ubc/DSCI_532-projects/group_data/12'' (directories w0),
           requested := requested w0
             @ [raw_url ''UBC-MDS/DSCI-532_2026_12_app'' ''main'',
                raw_url ''UBC-MDS/DSCI-532_2026_12_app'' ''master''],
           files := (files w0)
             (''/home/ubc/DSCI_532-projects/group_data/12/sketch.png'' \<mapsto> ''PNG'')\<rparr>)" for w0
    using download_sketch_secondary
      [of ?net "''UBC-MDS/DSCI-532_2026_12_app''" "''PNG''" "''12''" ?gd w0] urls
    by (simp add: fetch_failed_def p12 truediv_def parse_path_sketch str_of_path_def)
  have second: "download_sketch ?net ''UBC-MDS/DSCI-532_2026_a_app'' (Str ''a'') ?gd w0 =
       (Inr None,
        w0\<lparr>directories := insert ''/home/ubc/DSCI_532-projects/group_data/a'' (directories w0),
           requested := requested w0
             @ [raw_url ''UBC-MDS/DSCI-532_2026_a_app'' ''main'',
                raw_url ''UBC-MDS/DSCI-532_2026_a_app'' ''master'']\<rparr>)" for w0
    using download_sketch_none
      [of ?net "''UBC-MDS/DSCI-532_2026_a_app''" "''a''" ?gd w0] urls
    by (simp add: fetch_failed_def pa truediv_def str_of_path_def)
  have loop: "sketch_loop ?net ?gd
         [sample_row ''DSCI-532_2026_12_app'' (Str ''12''),
          sample_row ''DSCI-532_2026_a_app'' (Str ''a'')] w0
       = (Inr [''group_data/12/sketch.png'', ''''],
          w0\<lparr>directories := insert ''/home/ubc/DSCI_532-projects/group_data/a''
               (insert ''/home/ubc/DSCI_532-projects/group_data/12'' (directories w0)),
             requested := requested w0
               @ [raw_url ''UBC-MDS/DSCI-532_2026_12_app'' ''main'',
                  raw_url ''UBC-MDS/DSCI-532_2026_12_app'' ''master'',
                  raw_url ''UBC-MDS/DSCI-532_2026_a_app'' ''main'',
                  raw_url ''UBC-MDS/DSCI-532_2026_a_app'' ''master''],
             files := (files w0)
               (''/home/ubc/DSCI_532-projects/group_data/12/sketch.png'' \<mapsto> ''PNG'')\<rparr>)" for w0
    by (simp add: sample_row_stage3 truthy_def first second)
  have a: "fst (download_all_sketches http_get
          (sample_row ''DSCI-532_2026_12_app'' (IntV 12) # rs) w) = Inl TypeError"
    by (simp add: download_all_sketches_def Let_def int del: sketch_loop.simps)
  have b: "requested (snd (download_all_sketches http_get
          (sample_row ''DSCI-532_2026_12_app'' (IntV 12) # rs) w)) = requested w"
    by (simp add: download_all_sketches_def Let_def int del: sketch_loop.simps)
  have c: "files (snd (download_all_sketches http_get
          (sample_row ''DSCI-532_2026_12_app'' (IntV 12) # rs) w)) = files w"
    by (simp add: download_all_sketches_def Let_def int del: sketch_loop.simps)
  have run: "download_all_sketches ?net
         [sample_row ''DSCI-532_2026_12_app'' (Str ''12''),
          sample_row ''DSCI-532_2026_a_app'' (Str ''a'')] sample_world
       = (Inr [(sample_row ''DSCI-532_2026_12_app'' (Str ''12''))
                 \<lparr>sketch_path := Some (Text ''group_data/12/sketch.png'')\<rparr>,
               (sample_row ''DSCI-532_2026_a_app'' (Str ''a''))
                 \<lparr>sketch_path := Some (Text '''')\<rparr>],
          sample_world
            \<lparr>directories := insert ''/home/ubc/DSCI_532-projects/group_data/a''
               (insert ''/home/ubc/DSCI_532-projects/group_data/12''
                 (insert ''/home/ubc/DSCI_532-projects/group_data'' (directories sample_world))),
             requested := requested sample_world
               @ [raw_url ''UBC-MDS/DSCI-532_2026_12_app'' ''main'',
                  raw_url ''UBC-MDS/DSCI-532_2026_12_app'' ''master'',
                  raw_url ''UBC-MDS/DSCI-532_2026_a_app'' ''main'',
                  raw_url ''UBC-MDS/DSCI-532_2026_a_app'' ''master''],
             files := (files sample_world)
               (''/home/ubc/DSCI_532-projects/group_data/12/sketch.png'' \<mapsto> ''PNG'')\<rparr>)"
    by (simp add: download_all_sketches_def Let_def gd loop str_of_path_def
        del: sketch_loop.simps)
  have d: "fst (download_all_sketches ?net
         [sample_row ''DSCI-532_2026_12_app'' (Str ''12''),
          sample_row ''DSCI-532_2026_a_app'' (Str ''a'')] sample_world)
     = Inr [(sample_row ''DSCI-532_2026_12_app'' (Str ''12''))
              \<lparr>sketch_path := Some (Text ''group_data/12/sketch.png'')\<rparr>,
            (sample_row ''DSCI-532_2026_a_app'' (Str ''a''))
              \<lparr>sketch_path := Some (Text '''')\<rparr>]"
    by (simp add: run)
  have e: "requested (snd (download_all_sketches ?net
         [sample_row ''DSCI-532_2026_12_app'' (Str ''12''),
          sample_row ''DSCI-532_2026_a_app'' (Str ''a'')] sample_world))
     = [raw_url ''UBC-MDS/DSCI-532_2026_12_app'' ''main'',
        raw_url ''UBC-MDS/DSCI-532_2026_12_app'' ''master'',
        raw_url ''UBC-MDS/DSCI-532_2026_a_app'' ''main'',
        raw_url ''UBC-MDS/DSCI-532_2026_a_app'' ''master'']"
    unfolding run by (simp add: sample_world_def)
  have f: "files (snd (download_all_sketches ?net
         [sample_row ''DSCI-532_2026_12_app'' (Str ''12''),
          sample_row ''DSCI-532_2026_a_app'' (Str ''a'')] sample_world))
        ''/home/ubc/DSCI_532-projects/group_data/12/sketch.png''
     = Some ''PNG''"
    by (simp add: run)
  from a b c d e f show ?thesis by blast
qed

text \<open>
  C5. The claim fails on the code. A repository named exactly \<^verbatim>\<open>DSCI-532_2026_\<close> gets
  the empty group number from name decomposition; the dataset file then has an empty
  field, which asset retrieval reads back as NaN. NaN is true in Python, so the test
  \<^verbatim>\<open>if not group_number\<close> does not skip the record, \<^verbatim>\<open>download_sketch\<close> is called with
  NaN, and joining the directory path with it raises \<^verbatim>\<open>TypeError\<close>: no request is made,
  but no empty sketch path is recorded either, and the stage ends with the error,
  whatever records follow. Only a group number that is the empty string itself is
  skipped and recorded with an empty sketch path.
\<close>

theorem download_all_sketches_missing_group_number:
  "parse_repo_name ''DSCI-532_2026_'' ''DSCI-532_2026_'' = Inr ('''', '''')
   \<and> fst (download_all_sketches http_get (sample_row ''DSCI-532_2026_'' FloatNaN # rs) w)
       = Inl TypeError
   \<and> requested (snd (download_all_sketches http_get
                        (sample_row ''DSCI-532_2026_'' FloatNaN # rs) w))
       = requested w
   \<and> fst (download_all_sketches http_get [sample_row ''DSCI-532_2026_'' (Str '''')] w)
       = Inr [(sample_row ''DSCI-532_2026_'' (Str ''''))\<lparr>sketch_path := Some (Text '''')\<rparr>]
   \<and> requested (snd (download_all_sketches http_get
                        [sample_row ''DSCI-532_2026_'' (Str '''')] w))
       = requested w"
proof -
  have p: "parse_repo_name ''DSCI-532_2026_'' ''DSCI-532_2026_'' = Inr ('''', '''')"
    using parse_no_underscore [of "''''" "''DSCI-532_2026_''"] by simp
  have nan: "sketch_loop http_get gd (sample_row ''DSCI-532_2026_'' FloatNaN # rs) w0
       = (Inl TypeError, w0)" for gd w0
    by (rule sketch_loop_not_string [of _ FloatNaN]) (simp_all add: sample_row_stage3 truthy_def)
  have empty: "sketch_loop http_get gd [sample_row ''DSCI-532_2026_'' (Str '''')] w0
       = (Inr [''''], w0)" for gd w0
    by (simp add: sample_row_stage3 truthy_def)
  show ?thesis
    by (simp add: p download_all_sketches_def Let_def nan empty del: sketch_loop.simps)
qed
section \<open>Properties of page generation\<close>

subsection \<open>The conversion of a group number\<close>

lemma round_binary64_not_NaN: "round_binary64 negative n d \<noteq> NaN"
  by (simp add: round_binary64_def Let_def)

lemma int_float_IntV: "int_float (IntV n) = Inl e \<Longrightarrow> e = OverflowError"
  using round_binary64_not_NaN [of "n < 0" "\<bar>n\<bar>" 1]
  by (auto simp: int_float_def float_of_int_def int_of_float_def
      split: pyfloat.splits sum.splits)

text \<open>Only a string can make the conversion raise \<^verbatim>\<open>ValueError\<close> or \<^verbatim>\<open>TypeError\<close>.\<close>

lemma int_float_error_string:
  assumes "int_float c = Inl e" and "e = ValueError \<or> e = TypeError" and "\<not> isna c"
  shows "\<exists>s. c = Str s"
proof (cases c)
  case (Str s)
  then show ?thesis by simp
next
  case (IntV n)
  with assms(1) have "e = OverflowError" by (simp add: int_float_IntV)
  with assms(2) show ?thesis by simp
next
  case FloatNaN
  with assms(3) show ?thesis by (simp add: isna_def)
qed

subsection \<open>The page of a record\<close>




subsection \<open>What the two passes write\<close>

lemma first_pass_keeps:
  "first_pass df w nn = (res, w') \<Longrightarrow> set w \<subseteq> set w'"
proof (induction df arbitrary: w nn)
  case Nil
  then show ?case by simp
next
  case (Cons r rs)
  then show ?case
    by (fastforce split: option.splits if_splits sum.splits)
qed

lemma first_pass_keeps_deferred:
  "first_pass df w nn = (Inr nn', w') \<Longrightarrow> set nn \<subseteq> set nn'"
proof (induction df arbitrary: w nn)
  case Nil
  then show ?case by simp
next
  case (Cons r rs)
  then show ?case
    by (fastforce split: option.splits if_splits sum.splits)
qed

lemma first_pass_numeric:
  assumes "first_pass df w nn = (Inr nn', w')" and "r \<in> set df"
    and "group_number r = Some c" and "truthy c" and "\<not> isna c"
    and "int_float c = Inr n"
  shows "\<exists>pg. row_page r (str_of_int n) n = Inr pg \<and> pg \<in> set w'"
  using assms
proof (induction df arbitrary: w nn)
  case Nil
  then show ?case by simp
next
  case (Cons x xs)
  show ?case
  proof (cases "x = r")
    case True
    with Cons.prems obtain pg where pg: "row_page r (str_of_int n) n = Inr pg"
      and rest: "first_pass xs (w @ [pg]) nn = (Inr nn', w')"
      by (auto split: sum.splits)
    from first_pass_keeps [OF rest] have "pg \<in> set w'" by auto
    with pg show ?thesis by blast
  next
    case False
    with Cons.prems have "r \<in> set xs" by simp
    moreover from Cons.prems obtain w1 nn1 where "first_pass xs w1 nn1 = (Inr nn', w')"
      by (auto split: option.splits if_splits sum.splits)
    ultimately show ?thesis
      using Cons.IH Cons.prems by blast
  qed
qed

lemma first_pass_deferred:
  assumes "first_pass df w nn = (Inr nn', w')" and "r \<in> set df"
    and "group_number r = Some c" and "truthy c" and "\<not> isna c"
    and "int_float c = Inl e"
  shows "(e = ValueError \<or> e = TypeError) \<and> (c, r) \<in> set nn'"
  using assms
proof (induction df arbitrary: w nn)
  case Nil
  then show ?case by simp
next
  case (Cons x xs)
  show ?case
  proof (cases "x = r")
    case True
    with Cons.prems have e: "e = ValueError \<or> e = TypeError"
      and rest: "first_pass xs w (nn @ [(c, r)]) = (Inr nn', w')"
      by (auto split: if_splits)
    from first_pass_keeps_deferred [OF rest] have "(c, r) \<in> set nn'" by auto
    with e show ?thesis by blast
  next
    case False
    with Cons.prems have "r \<in> set xs" by simp
    moreover from Cons.prems obtain w1 nn1 where "first_pass xs w1 nn1 = (Inr nn', w')"
      by (auto split: option.splits if_splits sum.splits)
    ultimately show ?thesis
      using Cons.IH Cons.prems by blast
  qed
qed

lemma second_pass_keeps:
  "second_pass idx xs w = (res, w') \<Longrightarrow> set w \<subseteq> set w'"
proof (induction xs arbitrary: idx w)
  case Nil
  then show ?case by simp
next
  case (Cons x xs)
  then show ?case
    by (cases x) (fastforce split: sum.splits)
qed

lemma second_pass_pages:
  assumes "second_pass idx xs w = (Inr u, w')" and "(c, r) \<in> set xs"
  shows "\<exists>k pg. idx \<le> k \<and> k < idx + length xs
           \<and> row_page r (str_of_cell c) (9000 + int k) = Inr pg \<and> pg \<in> set w'"
  using assms
proof (induction xs arbitrary: idx w)
  case Nil
  then show ?case by simp
next
  case (Cons x xs)
  obtain c0 r0 where x: "x = (c0, r0)" by (cases x)
  from Cons.prems(1) x obtain pg0
    where pg0: "row_page r0 (str_of_cell c0) (9000 + int idx) = Inr pg0"
      and rest: "second_pass (Suc idx) xs (w @ [pg0]) = (Inr u, w')"
    by (auto split: sum.splits)
  show ?case
  proof (cases "(c, r) = (c0, r0)")
    case True
    from second_pass_keeps [OF rest] have "pg0 \<in> set w'" by auto
    with pg0 True show ?thesis
      by (intro exI [of _ idx] exI [of _ pg0]) simp
  next
    case False
    with Cons.prems(2) x have "(c, r) \<in> set xs" by auto
    from Cons.IH [OF rest this] obtain k pg
      where "Suc idx \<le> k" "k < Suc idx + length xs"
        "row_page r (str_of_cell c) (9000 + int k) = Inr pg" "pg \<in> set w'"
      by blast
    then show ?thesis by (intro exI [of _ k] exI [of _ pg]) simp
  qed
qed

lemma generate_all_pages_numeric:
  assumes "generate_all_pages df = (Inr u, written)" and "r \<in> set df"
    and "group_number r = Some c" and "truthy c" and "\<not> isna c"
    and "int_float c = Inr n"
  shows "\<exists>pg. row_page r (str_of_int n) n = Inr pg \<and> pg \<in> set written"
proof -
  from assms(1) obtain nn w1 where fp: "first_pass df [] [] = (Inr nn, w1)"
    and sp: "second_pass 0 (sort_key (\<lambda>x. str_of_cell (fst x)) nn) w1 = (Inr u, written)"
    by (auto simp: generate_all_pages_def split: prod.splits sum.splits)
  from first_pass_numeric [OF fp assms(2-6)] obtain pg
    where "row_page r (str_of_int n) n = Inr pg" "pg \<in> set w1" by blast
  with second_pass_keeps [OF sp] show ?thesis by blast
qed

lemma generate_all_pages_deferred:
  assumes "generate_all_pages df = (Inr u, written)" and "r \<in> set df"
    and "group_number r = Some c" and "truthy c" and "\<not> isna c"
    and "int_float c = Inl e"
  shows "\<exists>s k pg. c = Str s \<and> row_page r s (9000 + int k) = Inr pg \<and> pg \<in> set written"
proof -
  from assms(1) obtain nn w1 where fp: "first_pass df [] [] = (Inr nn, w1)"
    and sp: "second_pass 0 (sort_key (\<lambda>x. str_of_cell (fst x)) nn) w1 = (Inr u, written)"
    by (auto simp: generate_all_pages_def split: prod.splits sum.splits)
  from first_pass_deferred [OF fp assms(2-6)]
  have e: "e = ValueError \<or> e = TypeError" and mem: "(c, r) \<in> set nn" by simp_all
  from int_float_error_string [OF assms(6) e assms(5)] obtain s where s: "c = Str s" ..
  from mem have "(c, r) \<in> set (sort_key (\<lambda>x. str_of_cell (fst x)) nn)" by simp
  from second_pass_pages [OF sp this] obtain k pg
    where "row_page r (str_of_cell c) (9000 + int k) = Inr pg" "pg \<in> set written" by blast
  with s have "c = Str s \<and> row_page r s (9000 + int k) = Inr pg \<and> pg \<in> set written"
    by (simp add: str_of_cell_def)
  then show ?thesis by blast
qed

subsection \<open>Records that are skipped\<close>




subsection \<open>Concrete values\<close>

lemma int_float_examples:
  "int_float (Str ''3'') = Inr 3"
  "int_float (Str ''10'') = Inr 10"
  "int_float (Str ''2'') = Inr 2"
  "int_float (Str ''7'') = Inr 7"
  "int_float (Str ''007'') = Inr 7"
  "int_float (Str ''3.9'') = Inr 3"
  "int_float (Str ''a'') = Inl ValueError"
  "int_float (Str ''b'') = Inl ValueError"
  "int_float (Str ''inf'') = Inl OverflowError"
  "int_float (IntV 0) = Inr 0"
  "int_float (IntV 5) = Inr 5"
  by code_simp+

lemma str_of_int_examples:
  "str_of_int 2 = ''2''" "str_of_int 3 = ''3''" "str_of_int 5 = ''5''" "str_of_int 7 = ''7''"
  "str_of_int 10 = ''10''"
  by code_simp+

lemma sample_row_fields:
  "group_number (sample_row repo c) = Some c"
  "row_page (sample_row repo c) g n =
     Inr (create_project_page g (Text '''') (Text (''https://github.com/UBC-MDS/'' @ repo))
            (Text '''') (Text '''') n)"
  by (simp_all add: sample_row_def row_page_def normalize_def notna_def)

lemma truthy_Str: "truthy (Str s) = (s \<noteq> [])" "\<not> isna (Str s)"
  by (simp_all add: truthy_def isna_def)

text \<open>
  The example of the specification: groups \<^verbatim>\<open>3\<close>, \<^verbatim>\<open>10\<close>, \<^verbatim>\<open>2\<close> and \<^verbatim>\<open>b\<close>, \<^verbatim>\<open>a\<close>, in this
  order in the dataset, get the sort orders 3, 10, 2, and 9000 for \<^verbatim>\<open>a\<close>, 9001 for \<^verbatim>\<open>b\<close>.
\<close>

lemma generate_all_pages_example:
  "generate_all_pages
     [sample_row ''r3'' (Str ''3''), sample_row ''rb'' (Str ''b''),
      sample_row ''r10'' (Str ''10''), sample_row ''ra'' (Str ''a''),
      sample_row ''r2'' (Str ''2'')]
   = (Inr (),
      [create_project_page ''3'' (Text '''') (Text ''https://github.com/UBC-MDS/r3'')
         (Text '''') (Text '''') 3,
       create_project_page ''10'' (Text '''') (Text ''https://github.com/UBC-MDS/r10'')
         (Text '''') (Text '''') 10,
       create_project_page ''2'' (Text '''') (Text ''https://github.com/UBC-MDS/r2'')
         (Text '''') (Text '''') 2,
       create_project_page ''a'' (Text '''') (Text ''https://github.com/UBC-MDS/ra'')
         (Text '''') (Text '''') 9000,
       create_project_page ''b'' (Text '''') (Text ''https://github.com/UBC-MDS/rb'')
         (Text '''') (Text '''') 9001])"
  by (simp add: generate_all_pages_def sample_row_fields truthy_Str int_float_examples
      str_of_int_examples str_of_cell_def)

text \<open>
  C2. The claim fails on the code. A group number \<^verbatim>\<open>inf\<close> (repository
  \<^verbatim>\<open>DSCI-532_2026_inf_app\<close>) is read by \<^verbatim>\<open>float\<close> as infinity, and \<^verbatim>\<open>int\<close> of infinity
  raises \<^verbatim>\<open>OverflowError\<close>, which the handler for \<^verbatim>\<open>ValueError\<close> and \<^verbatim>\<open>TypeError\<close> does
  not catch: the record is not deferred, page generation stops with the error, and the
  non-numeric group \<^verbatim>\<open>a\<close> seen before it never gets its page. Without that record the
  group \<^verbatim>\<open>a\<close> is deferred and gets the sort order 9000.
\<close>

theorem generate_all_pages_overflow_not_deferred:
  "int_float (Str ''inf'') = Inl OverflowError
   \<and> generate_all_pages
       [sample_row ''DSCI-532_2026_a_app'' (Str ''a''),
        sample_row ''DSCI-532_2026_inf_app'' (Str ''inf'')]
     = (Inl OverflowError, [])
   \<and> generate_all_pages [sample_row ''DSCI-532_2026_a_app'' (Str ''a'')]
     = (Inr (),
        [create_project_page ''a'' (Text '''')
           (Text ''https://github.com/UBC-MDS/DSCI-532_2026_a_app'') (Text '''') (Text '''')
           9000])"
  by (simp add: generate_all_pages_def sample_row_fields truthy_Str int_float_examples
      str_of_cell_def)




subsection \<open>Missing text fields\<close>

lemma first_pass_origin:
  "first_pass df w nn = (res, w') \<Longrightarrow> pg \<in> set w' \<Longrightarrow>
   pg \<in> set w \<or> (\<exists>r \<in> set df. \<exists>g n. row_page r g n = Inr pg)"
proof (induction df arbitrary: w nn)
  case Nil
  then show ?case by simp
next
  case (Cons x xs)
  note step = Cons.prems(1) and mem = Cons.prems(2)
  show ?case
  proof (cases "group_number x")
    case None
    with step mem show ?thesis by simp
  next
    case (Some c)
    show ?thesis
    proof (cases "\<not> truthy c \<or> isna c")
      case True
      with step Some have "first_pass xs w nn = (res, w')" by auto
      from Cons.IH [OF this mem] show ?thesis by auto
    next
      case False
      show ?thesis
      proof (cases "int_float c")
        case (Inl e)
        show ?thesis
        proof (cases "e = ValueError \<or> e = TypeError")
          case True
          with step Some False Inl have "first_pass xs w (nn @ [(c, x)]) = (res, w')"
            by auto
          from Cons.IH [OF this mem] show ?thesis by auto
        next
          case other: False
          with step Some False Inl have "w' = w" by auto
          with mem show ?thesis by simp
        qed
      next
        case (Inr k)
        show ?thesis
        proof (cases "row_page x (str_of_int k) k")
          case failed: (Inl e)
          with step Some False Inr have "w' = w" by auto
          with mem show ?thesis by simp
        next
          case page: (Inr pg1)
          with step Some False Inr have "first_pass xs (w @ [pg1]) nn = (res, w')"
            by auto
          from Cons.IH [OF this mem]
          have "pg \<in> set w \<or> pg = pg1 \<or> (\<exists>r \<in> set xs. \<exists>g n. row_page r g n = Inr pg)"
            by auto
          with page show ?thesis by auto
        qed
      qed
    qed
  qed
qed

lemma first_pass_deferred_origin:
  "first_pass df w nn = (Inr nn', w') \<Longrightarrow> x \<in> set nn' \<Longrightarrow>
   x \<in> set nn \<or> snd x \<in> set df"
proof (induction df arbitrary: w nn)
  case Nil
  then show ?case by simp
next
  case (Cons r rs)
  from Cons.prems(1) obtain w1 nn1 where rest: "first_pass rs w1 nn1 = (Inr nn', w')"
    and nn1: "nn1 = nn \<or> (\<exists>c. nn1 = nn @ [(c, r)])"
    by (auto split: option.splits if_splits sum.splits)
  from Cons.IH [OF rest Cons.prems(2)] have "x \<in> set nn1 \<or> snd x \<in> set rs" .
  with nn1 show ?case by auto
qed

lemma second_pass_origin:
  "second_pass idx xs w = (res, w') \<Longrightarrow> pg \<in> set w' \<Longrightarrow>
   pg \<in> set w \<or> (\<exists>x \<in> set xs. \<exists>g n. row_page (snd x) g n = Inr pg)"
proof (induction xs arbitrary: idx w)
  case Nil
  then show ?case by simp
next
  case (Cons x xs)
  obtain c r where x: "x = (c, r)" by (cases x)
  show ?case
  proof (cases "row_page r (str_of_cell c) (9000 + int idx)")
    case (Inl e)
    with Cons.prems x show ?thesis by simp
  next
    case (Inr pg1)
    with Cons.prems(1) x have rest: "second_pass (Suc idx) xs (w @ [pg1]) = (res, w')"
      by simp
    from Cons.IH [OF rest Cons.prems(2)]
    have "pg \<in> set (w @ [pg1]) \<or> (\<exists>x \<in> set xs. \<exists>g n. row_page (snd x) g n = Inr pg)" .
    with Inr x show ?thesis by auto
  qed
qed

text \<open>Every page written is the page of a record of the dataset.\<close>

lemma generate_all_pages_origin:
  assumes "generate_all_pages df = (res, written)" and "pg \<in> set written"
  shows "\<exists>r \<in> set df. \<exists>g n. row_page r g n = Inr pg"
proof (cases "fst (first_pass df [] [])")
  case (Inl e)
  then obtain w1 where fp: "first_pass df [] [] = (Inl e, w1)"
    by (cases "first_pass df [] []") simp
  with assms(1) have "written = w1" by (simp add: generate_all_pages_def)
  with first_pass_origin [OF fp] assms(2) show ?thesis by simp
next
  case (Inr nn)
  then obtain w1 where fp: "first_pass df [] [] = (Inr nn, w1)"
    by (cases "first_pass df [] []") simp
  with assms(1)
  have sp: "second_pass 0 (sort_key (\<lambda>x. str_of_cell (fst x)) nn) w1 = (res, written)"
    by (simp add: generate_all_pages_def)
  from second_pass_origin [OF sp assms(2)]
  consider "pg \<in> set w1" | x g n where "x \<in> set nn" "row_page (snd x) g n = Inr pg"
    by auto
  then show ?thesis
  proof cases
    case 1
    with first_pass_origin [OF fp] show ?thesis by simp
  next
    case 2
    with first_pass_deferred_origin [OF fp] have "snd x \<in> set df" by auto
    with 2 show ?thesis by blast
  qed
qed

lemma row_page_fill_missing: "row_page (fill_missing r) g n = row_page r g n"
  by (simp add: row_page_def fill_missing_def normalize_def notna_def
      split: option.splits text_cell.splits)

text \<open>
  The text of the page of a record, field by field: a missing project name gives the
  empty subtitle, a missing or empty description leaves the link-button line alone in
  the description block, a missing, absent or empty sketch path gives the placeholder
  image.
\<close>

lemma row_page_text:
  assumes "row_page r g n = Inr pg"
  shows "fst pg = ''group-'' @ g @ ''.qmd''"
    and "snd pg =
     page_content g
       (case project_name r of Some (Text p) \<Rightarrow> p | _ \<Rightarrow> '''')
       (case description r of
          Text d \<Rightarrow>
            if d = [] then link_button (html_url r)
            else d @ newline @ ''  '' @ newline @ ''  '' @ link_button (html_url r)
        | Missing \<Rightarrow> link_button (html_url r))
       (case sketch_path r of
          Some (Text sp) \<Rightarrow> if sp = [] then placeholder_image else ''../'' @ sp
        | _ \<Rightarrow> placeholder_image)
       n"
  using assms
  by (auto simp: row_page_def create_project_page_def Let_def normalize_def notna_def
      truthy_text_def format_text_def split: option.splits text_cell.splits)

text \<open>Every record that is not skipped has its page written, in a run that completes.\<close>

lemma generate_all_pages_record:
  assumes "generate_all_pages df = (Inr u, written)" and "r \<in> set df"
    and "group_number r = Some c" and "truthy c" and "\<not> isna c"
  shows "\<exists>g n pg. pg \<in> set written \<and> row_page r g n = Inr pg
           \<and> (int_float c = Inr n \<and> g = str_of_int n
              \<or> c = Str g \<and> (\<exists>k. n = 9000 + int k))"
proof (cases "int_float c")
  case (Inr n)
  from generate_all_pages_numeric [OF assms Inr] obtain pg
    where "row_page r (str_of_int n) n = Inr pg" "pg \<in> set written" by blast
  with Inr show ?thesis by blast
next
  case (Inl e)
  from generate_all_pages_deferred [OF assms Inl] obtain s k pg
    where "c = Str s" "row_page r s (9000 + int k) = Inr pg" "pg \<in> set written" by blast
  then show ?thesis by blast
qed

text \<open>
  C7. In a run of page generation that completes, every record that is not skipped has
  its page written, and the text of that page is made of the record's fields with the
  missing ones read as empty strings: it is the page of the record with its missing
  description, project name and sketch path replaced by empty strings (an absent sketch
  path column counts as missing). When the description of the record is missing, the
  description block of its page is the link-button line for the record's URL and nothing
  else; a missing project name gives an empty subtitle and a missing sketch path the
  placeholder image. Conversely every page written, also in a run that stops with an
  error, is such a page of a record of the dataset.
\<close>

theorem pages_have_no_missing_values:
  "(generate_all_pages df = (Inr u, written) \<and> r \<in> set df
      \<and> group_number r = Some c \<and> truthy c \<and> \<not> isna c \<longrightarrow>
      (\<exists>g n pg.
         pg \<in> set written
         \<and> row_page r g n = Inr pg
         \<and> (int_float c = Inr n \<and> g = str_of_int n \<or> c = Str g \<and> (\<exists>k. n = 9000 + int k))
         \<and> row_page (fill_missing r) g n = Inr pg
         \<and> fst pg = ''group-'' @ g @ ''.qmd''
         \<and> snd pg =
             page_content g
               (case project_name r of Some (Text p) \<Rightarrow> p | _ \<Rightarrow> '''')
               (case description r of
                  Text d \<Rightarrow>
                    if d = [] then link_button (html_url r)
                    else d @ newline @ ''  '' @ newline @ ''  '' @ link_button (html_url r)
                | Missing \<Rightarrow> link_button (html_url r))
               (case sketch_path r of
                  Some (Text sp) \<Rightarrow> if sp = [] then placeholder_image else ''../'' @ sp
                | _ \<Rightarrow> placeholder_image)
               n))
   \<and> (generate_all_pages df = (res, pages) \<and> page \<in> set pages \<longrightarrow>
      (\<exists>x \<in> set df. \<exists>g n.
         row_page x g n = Inr page
         \<and> row_page (fill_missing x) g n = Inr page
         \<and> snd page =
             page_content g
               (case project_name x of Some (Text p) \<Rightarrow> p | _ \<Rightarrow> '''')
               (case description x of
                  Text d \<Rightarrow>
                    if d = [] then link_button (html_url x)
                    else d @ newline @ ''  '' @ newline @ ''  '' @ link_button (html_url x)
                | Missing \<Rightarrow> link_button (html_url x))
               (case sketch_path x of
                  Some (Text sp) \<Rightarrow> if sp = [] then placeholder_image else ''../'' @ sp
                | _ \<Rightarrow> placeholder_image)
               n))"
proof (intro conjI impI)
  assume h: "generate_all_pages df = (Inr u, written) \<and> r \<in> set df
      \<and> group_number r = Some c \<and> truthy c \<and> \<not> isna c"
  then have run: "generate_all_pages df = (Inr u, written)" and r: "r \<in> set df"
    and c: "group_number r = Some c" "truthy c" "\<not> isna c"
    by simp_all
  from generate_all_pages_record [OF run r c]
  obtain g n pg where mem: "pg \<in> set written" and pg: "row_page r g n = Inr pg"
    and gn: "int_float c = Inr n \<and> g = str_of_int n \<or> c = Str g \<and> (\<exists>k. n = 9000 + int k)"
    by blast
  have filled: "row_page (fill_missing r) g n = Inr pg"
    using pg by (simp add: row_page_fill_missing)
  from mem pg gn filled row_page_text [OF pg]
  show "\<exists>g n pg.
         pg \<in> set written
         \<and> row_page r g n = Inr pg
         \<and> (int_float c = Inr n \<and> g = str_of_int n \<or> c = Str g \<and> (\<exists>k. n = 9000 + int k))
         \<and> row_page (fill_missing r) g n = Inr pg
         \<and> fst pg = ''group-'' @ g @ ''.qmd''
         \<and> snd pg =
             page_content g
               (case project_name r of Some (Text p) \<Rightarrow> p | _ \<Rightarrow> '''')
               (case description r of
                  Text d \<Rightarrow>
                    if d = [] then link_button (html_url r)
                    else d @ newline @ ''  '' @ newline @ ''  '' @ link_button (html_url r)
                | Missing \<Rightarrow> link_button (html_url r))
               (case sketch_path r of
                  Some (Text sp) \<Rightarrow> if sp = [] then placeholder_image else ''../'' @ sp
                | _ \<Rightarrow> placeholder_image)
               n"
    by blast
next
  assume "generate_all_pages df = (res, pages) \<and> page \<in> set pages"
  then have run: "generate_all_pages df = (res, pages)" and mem: "page \<in> set pages"
    by simp_all
  from generate_all_pages_origin [OF run mem] obtain x g n where x: "x \<in> set df" and page: "row_page x g n = Inr page"
    by blast
  have "row_page (fill_missing x) g n = Inr page"
    using page by (simp add: row_page_fill_missing)
  with x page row_page_text(2) [OF page]
  show "\<exists>x \<in> set df. \<exists>g n.
         row_page x g n = Inr page
         \<and> row_page (fill_missing x) g n = Inr page
         \<and> snd page =
             page_content g
               (case project_name x of Some (Text p) \<Rightarrow> p | _ \<Rightarrow> '''')
               (case description x of
                  Text d \<Rightarrow>
                    if d = [] then link_button (html_url x)
                    else d @ newline @ ''  '' @ newline @ ''  '' @ link_button (html_url x)
                | Missing \<Rightarrow> link_button (html_url x))
               (case sketch_path x of
                  Some (Text sp) \<Rightarrow> if sp = [] then placeholder_image else ''../'' @ sp
                | _ \<Rightarrow> placeholder_image)
               n"
    by blast
qed

theorem pages_have_no_missing_values_witness:
  "description (sample_row ''DSCI-532_2026_7_app'' (Str ''7'')) = Missing
   \<and> generate_all_pages [sample_row ''DSCI-532_2026_7_app'' (Str ''7'')]
     = (Inr (),
        [(''group-7.qmd'',
          ''---'' @ newline
          @ ''title: '' @ dquote @ ''Group 7'' @ dquote @ newline
          @ ''subtitle: '' @ dquote @ dquote @ newline
          @ ''description: |'' @ newline
          @ ''  [Repo](https://github.com/UBC-MDS/DSCI-532_2026_7_app)''
          @ ''{.btn .btn-primary .btn-sm}'' @ newline
          @ ''image: https://via.placeholder.com/400x300?text=No+Sketch'' @ newline
          @ ''order: 7'' @ newline
          @ ''---'' @ newline
          @ newline
          @ ''This page displays in the project listing grid.'' @ newline)])
   \<and> (\<exists>g n. row_page (fill_missing (sample_row ''DSCI-532_2026_7_app'' (Str ''7''))) g n
         = Inr (''group-7.qmd'',
          ''---'' @ newline
          @ ''title: '' @ dquote @ ''Group 7'' @ dquote @ newline
          @ ''subtitle: '' @ dquote @ dquote @ newline
          @ ''description: |'' @ newline
          @ ''  [Repo](https://github.com/UBC-MDS/DSCI-532_2026_7_app)''
          @ ''{.btn .btn-primary .btn-sm}'' @ newline
          @ ''image: https://via.placeholder.com/400x300?text=No+Sketch'' @ newline
          @ ''order: 7'' @ newline
          @ ''---'' @ newline
          @ newline
          @ ''This page displays in the project listing grid.'' @ newline)
       \<and> ''---'' @ newline
          @ ''title: '' @ dquote @ ''Group 7'' @ dquote @ newline
          @ ''subtitle: '' @ dquote @ dquote @ newline
          @ ''description: |'' @ newline
          @ ''  [Repo](https://github.com/UBC-MDS/DSCI-532_2026_7_app)''
          @ ''{.btn .btn-primary .btn-sm}'' @ newline
          @ ''image: https://via.placeholder.com/400x300?text=No+Sketch'' @ newline
          @ ''order: 7'' @ newline
          @ ''---'' @ newline
          @ newline
          @ ''This page displays in the project listing grid.'' @ newline
         = page_content g '''' (link_button (Text ''https://github.com/UBC-MDS/DSCI-532_2026_7_app''))
             placeholder_image n)
   \<and> (\<exists>x \<in> set [sample_row ''DSCI-532_2026_7_app'' (Str ''7'')]. \<exists>g n.
         row_page x g n
         = Inr (''group-7.qmd'',
          ''---'' @ newline
          @ ''title: '' @ dquote @ ''Group 7'' @ dquote @ newline
          @ ''subtitle: '' @ dquote @ dquote @ newline
          @ ''description: |'' @ newline
          @ ''  [Repo](https://github.com/UBC-MDS/DSCI-532_2026_7_app)''
          @ ''{.btn .btn-primary .btn-sm}'' @ newline
          @ ''image: https://via.placeholder.com/400x300?text=No+Sketch'' @ newline
          @ ''order: 7'' @ newline
          @ ''---'' @ newline
          @ newline
          @ ''This page displays in the project listing grid.'' @ newline))"
proof -
  let ?text = "''---'' @ newline
          @ ''title: '' @ dquote @ ''Group 7'' @ dquote @ newline
          @ ''subtitle: '' @ dquote @ dquote @ newline
          @ ''description: |'' @ newline
          @ ''  [Repo](https://github.com/UBC-MDS/DSCI-532_2026_7_app)''
          @ ''{.btn .btn-primary .btn-sm}'' @ newline
          @ ''image: https://via.placeholder.com/400x300?text=No+Sketch'' @ newline
          @ ''order: 7'' @ newline
          @ ''---'' @ newline
          @ newline
          @ ''This page displays in the project listing grid.'' @ newline"
  let ?row = "sample_row ''DSCI-532_2026_7_app'' (Str ''7'')"
  have d: "description ?row = Missing"
    by (simp add: sample_row_def)
  have fields: "project_name ?row = Some Missing" "sketch_path ?row = None"
    "html_url ?row = Text ''https://github.com/UBC-MDS/DSCI-532_2026_7_app''"
    by (simp_all add: sample_row_def)
  have page: "create_project_page ''7'' (Text '''')
        (Text ''https://github.com/UBC-MDS/DSCI-532_2026_7_app'') (Text '''') (Text '''') 7
     = (''group-7.qmd'', ?text)"
    by (simp add: create_project_page_def Let_def page_content_def title_line_def
        link_button_def placeholder_image_def truthy_text_def notna_def format_text_def
        str_of_int_examples)
  have run: "generate_all_pages [?row] = (Inr (), [(''group-7.qmd'', ?text)])"
    unfolding page [symmetric]
    by (simp add: generate_all_pages_def sample_row_fields truthy_Str int_float_examples
        str_of_int_examples)
  have "generate_all_pages [?row] = (Inr (), [(''group-7.qmd'', ?text)]) \<and> ?row \<in> set [?row]
      \<and> group_number ?row = Some (Str ''7'') \<and> truthy (Str ''7'') \<and> \<not> isna (Str ''7'')"
    using run by (simp add: sample_row_fields(1) truthy_Str)
  from pages_have_no_missing_values
    [where df = "[?row]" and u = "()" and written = "[(''group-7.qmd'', ?text)]"
       and r = ?row and c = "Str ''7''", THEN conjunct1, THEN mp, OF this]
  obtain g n pg where "pg \<in> set [(''group-7.qmd'', ?text)]"
    and "row_page (fill_missing ?row) g n = Inr pg"
    and "snd pg =
           page_content g
             (case project_name ?row of Some (Text p) \<Rightarrow> p | _ \<Rightarrow> '''')
             (case description ?row of
                Text d \<Rightarrow>
                  if d = [] then link_button (html_url ?row)
                  else d @ newline @ ''  '' @ newline @ ''  '' @ link_button (html_url ?row)
              | Missing \<Rightarrow> link_button (html_url ?row))
             (case sketch_path ?row of
                Some (Text sp) \<Rightarrow> if sp = [] then placeholder_image else ''../'' @ sp
              | _ \<Rightarrow> placeholder_image)
             n"
    by blast
  then have filled: "\<exists>g n. row_page (fill_missing ?row) g n = Inr (''group-7.qmd'', ?text)
       \<and> ?text = page_content g '''' (link_button (Text ''https://github.com/UBC-MDS/DSCI-532_2026_7_app''))
             placeholder_image n"
    unfolding d fields by (intro exI [of _ g] exI [of _ n]) auto
  have "generate_all_pages [?row] = (Inr (), [(''group-7.qmd'', ?text)])
      \<and> (''group-7.qmd'', ?text) \<in> set [(''group-7.qmd'', ?text)]"
    using run by simp
  from pages_have_no_missing_values
    [where df = "[?row]" and res = "Inr ()" and pages = "[(''group-7.qmd'', ?text)]"
       and page = "(''group-7.qmd'', ?text)", THEN conjunct2, THEN mp, OF this]
  have origin: "\<exists>x \<in> set [?row]. \<exists>g n. row_page x g n = Inr (''group-7.qmd'', ?text)"
    by blast
  from d run filled origin show ?thesis by blast
qed

end
